theory Spec2Isabelle
  imports Complex_Main
begin

section \<open>JavaScript values and the operations the service applies to them\<close>

text \<open>
  Configuration values, validation schemas and change-log entries are the values
  \<open>JSON.parse\<close> produces, with two additions. A number is the exact value of the double
  JavaScript holds (a rational), or one of the two infinities, which \<open>JSON.parse\<close> returns
  for a literal out of range. \<open>JFunction\<close> is a function: no JSON text denotes one, but
  every object inherits functions from \<open>Object.prototype\<close>, and Joi reads inherited
  members like own ones. An object carries its own properties in the order
  \<open>Object.entries\<close> lists them.
\<close>

datatype json =
    JNull
  | JBool bool
  | JNum rat
  | JInfinity bool
  | JStr string
  | JArr "json list"
  | JObj "(string \<times> json) list"
  | JFunction

text \<open>
  JavaScript truthiness: \<open>null\<close>, \<open>false\<close>, \<open>0\<close> and \<open>""\<close> are falsy. A value that may be
  \<open>undefined\<close> is a \<open>json option\<close>; \<open>undefined\<close> is falsy.
\<close>

fun truthy :: "json \<Rightarrow> bool" where
  "truthy JNull = False"
| "truthy (JBool b) = b"
| "truthy (JNum n) = (n \<noteq> 0)"
| "truthy (JStr s) = (s \<noteq> [])"
| "truthy v = True"

fun truthy_opt :: "json option \<Rightarrow> bool" where
  "truthy_opt None = False"
| "truthy_opt (Some v) = truthy v"

text \<open>\<open>a || b\<close>\<close>

definition js_or :: "json option \<Rightarrow> json option \<Rightarrow> json option" where
  "js_or a b = (if truthy_opt a then a else b)"

text \<open>
  Reading a property \<open>x.name\<close> of a value that is not \<open>null\<close>, for the names the schema
  compiler reads (\<open>type\<close>, \<open>properties\<close>, \<open>required\<close>, \<open>enum\<close>, \<open>minimum\<close>, \<open>maximum\<close>,
  \<open>items\<close>): only an object has own properties of these names, and no prototype has a
  member of these names, so on any other value the result is \<open>undefined\<close>. Reading a
  property of \<open>null\<close> throws, which the callers below handle first.
\<close>

fun js_prop :: "json \<Rightarrow> string \<Rightarrow> json option" where
  "js_prop (JObj kvs) name = map_of kvs name"
| "js_prop v name = None"

text \<open>The decimal text of an array index, and the index a property name denotes.\<close>

definition digit_char :: "nat \<Rightarrow> char" where
  "digit_char d =
     (if d = 0 then CHR ''0'' else if d = 1 then CHR ''1'' else if d = 2 then CHR ''2''
      else if d = 3 then CHR ''3'' else if d = 4 then CHR ''4'' else if d = 5 then CHR ''5''
      else if d = 6 then CHR ''6'' else if d = 7 then CHR ''7'' else if d = 8 then CHR ''8''
      else CHR ''9'')"

function show_nat :: "nat \<Rightarrow> string" where
  "show_nat n = (if n < 10 then [digit_char n] else show_nat (n div 10) @ [digit_char (n mod 10)])"
  by pat_completeness auto
termination
  by (relation "measure id") auto

definition digit_value :: "char \<Rightarrow> nat option" where
  "digit_value ch =
     (if ch = CHR ''0'' then Some 0 else if ch = CHR ''1'' then Some 1
      else if ch = CHR ''2'' then Some 2 else if ch = CHR ''3'' then Some 3
      else if ch = CHR ''4'' then Some 4 else if ch = CHR ''5'' then Some 5
      else if ch = CHR ''6'' then Some 6 else if ch = CHR ''7'' then Some 7
      else if ch = CHR ''8'' then Some 8 else if ch = CHR ''9'' then Some 9 else None)"

text \<open>
  A property name is an array index when it is the decimal text of a number below
  \<open>2\<^sup>3\<^sup>2 - 1\<close>. JavaScript lists the array indices of an object first, in ascending
  order, and its other properties after them in the order they were defined.
\<close>

definition array_index :: "string \<Rightarrow> nat option" where
  "array_index k =
     (case those (map digit_value k) of
        None \<Rightarrow> None
      | Some ds \<Rightarrow>
          let n = foldl (\<lambda>a d. 10 * a + d) 0 ds
          in if k \<noteq> [] \<and> show_nat n = k \<and> n < 4294967295 then Some n else None)"

text \<open>\<open>Object.entries\<close> of a value: the indices of an array and of a string count as keys.\<close>

fun indexed :: "nat \<Rightarrow> 'a list \<Rightarrow> (string \<times> 'a) list" where
  "indexed i [] = []"
| "indexed i (x # xs) = (show_nat i, x) # indexed (Suc i) xs"

fun entries :: "json \<Rightarrow> (string \<times> json) list" where
  "entries (JObj kvs) = kvs"
| "entries (JArr xs) = indexed 0 xs"
| "entries (JStr s) = indexed 0 (map (\<lambda>ch. JStr [ch]) s)"
| "entries v = []"

text \<open>
  \<open>obj[key] = value\<close> on an object: an own property keeps its place, a new one is listed
  where JavaScript lists it. \<open>assign\<close> makes an object by such assignments.
\<close>

fun define_index :: "nat \<Rightarrow> string \<Rightarrow> 'a \<Rightarrow> (string \<times> 'a) list \<Rightarrow> (string \<times> 'a) list" where
  "define_index n k v [] = [(k, v)]"
| "define_index n k v ((k', v') # kvs) =
     (case array_index k' of
        None \<Rightarrow> (k, v) # (k', v') # kvs
      | Some n' \<Rightarrow> if n < n' then (k, v) # (k', v') # kvs else (k', v') # define_index n k v kvs)"

fun replace_own :: "string \<Rightarrow> 'a \<Rightarrow> (string \<times> 'a) list \<Rightarrow> (string \<times> 'a) list" where
  "replace_own k v [] = []"
| "replace_own k v ((k', v') # kvs) =
     (if k' = k then (k, v) # kvs else (k', v') # replace_own k v kvs)"

definition define_own :: "string \<Rightarrow> 'a \<Rightarrow> (string \<times> 'a) list \<Rightarrow> (string \<times> 'a) list" where
  "define_own k v kvs =
     (if k \<in> fst ` set kvs then replace_own k v kvs
      else (case array_index k of None \<Rightarrow> kvs @ [(k, v)] | Some n \<Rightarrow> define_index n k v kvs))"

definition assign :: "(string \<times> 'a) list \<Rightarrow> (string \<times> 'a) list" where
  "assign kvs = foldl (\<lambda>obj kv. define_own (fst kv) (snd kv) obj) [] kvs"

text \<open>
  What \<open>JSON.stringify\<close> keeps of a value, read back from the text: an infinity
  becomes \<open>null\<close>, a function becomes \<open>null\<close> in an array and is left out of an object.
  (For a function itself \<open>JSON.stringify\<close> returns \<open>undefined\<close>, which the callers handle.)
\<close>

fun stringify :: "json \<Rightarrow> json"
  and stringify_items :: "json list \<Rightarrow> json list"
  and stringify_props :: "(string \<times> json) list \<Rightarrow> (string \<times> json) list"
where
  "stringify (JInfinity b) = JNull"
| "stringify JFunction = JNull"
| "stringify (JArr xs) = JArr (stringify_items xs)"
| "stringify (JObj kvs) = JObj (stringify_props kvs)"
| "stringify v = v"
| "stringify_items [] = []"
| "stringify_items (x # xs) = stringify x # stringify_items xs"
| "stringify_props [] = []"
| "stringify_props ((k, v) # kvs) =
     (if v = JFunction then stringify_props kvs else (k, stringify v) # stringify_props kvs)"

section \<open>The validators of the Joi library that the service builds\<close>

text \<open>
  The service compiles a schema into a Joi validator and runs it with Joi's default
  preferences. Joi itself is a dependency, not part of the repository; the model below
  covers the six validators the service can build, with the behaviour of Joi 17 under
  its defaults:
  \<^item> \<open>abortEarly: true\<close>: validation stops at the first error, so \<open>error.details\<close> holds
    one entry;
  \<^item> \<open>presence: optional\<close>: \<open>undefined\<close> passes every validator that is not marked
    \<open>required()\<close>, so a key of an object may be missing; an array whose item validator
    is marked \<open>required()\<close> must hold an item that passes it;
  \<^item> \<open>allowUnknown: false\<close>: a key with no validator of its own is an error;
  \<^item> \<open>valid(...)\<close>: a value among the listed ones passes at once, any other fails with
    \<open>any.only\<close>; an object matches a listed object with the same properties;
  \<^item> \<open>convert: true\<close>: a string is converted where a number, a boolean or an object is
    expected. What Joi makes of a given string is a parameter of the model.
  An error is known by its path and its code; Joi's message text is a function of the
  validator, the path and the code.
\<close>

datatype number = Finite rat | Infinite bool

datatype joi =
    JoiAny
  | JoiString "json list"
  | JoiNumber "number option" "number option"
  | JoiBoolean
  | JoiArray "joi option"
  | JoiObject "(string \<times> joi) list" bool

datatype seg = Key string | Index nat

datatype joi_code =
    any_required | any_only
  | string_base | string_empty
  | number_base | number_infinity | number_unsafe | number_min | number_max
  | boolean_base
  | array_base | array_includesRequiredUnknowns
  | object_base | object_unknown

datatype detail = Detail "seg list" joi_code

text \<open>
  What the service reports for a failed validation: the dotted path of the error and its
  message. The one message the service writes itself is the literal it reports when the
  schema cannot be compiled.
\<close>

datatype message = JoiMessage joi_code | InvalidSchemaMessage

record validation_error =
  field :: string
  message :: message

text \<open>
  The statements an operation sends to the database, and the values the code throws.
  Which of the statements fail on the server during one operation is a parameter of
  that operation.
\<close>

datatype site =
    PoolConnect | InsertQuery | SelectQuery | BeginQuery | UpdateQuery | DeleteQuery
  | CommitQuery | RollbackQuery | HistorySelect | HistoryUpdate

type_synonym faults = "site \<Rightarrow> bool"

datatype error =
    TypeError
  | SyntaxError
  | JoiAssertion
  | StoreError site
  | ConstraintViolation
  | NotFound
  | ValidationFailed "validation_error list option"

text \<open>
  What the platform makes of a text, where the repository does not fix it:
  \<^item> Joi's conversion of a string to a number (which may refuse the string as an unsafe
    number), to a boolean and to an object;
  \<^item> \<open>JSON.parse\<close> applied to a string, or to an array that is not empty (which is
    first converted to a string);
  \<^item> the names of the members of \<open>Array.prototype\<close>, which differ between versions of
    Node.
\<close>

record convert =
  number_of_string :: "string \<Rightarrow> (joi_code + number) option"
  boolean_of_string :: "string \<Rightarrow> bool option"
  object_of_string :: "string \<Rightarrow> json option"
  json_of_text :: "json \<Rightarrow> error + json"
  array_method :: "string \<Rightarrow> bool"

definition unsafe :: "rat \<Rightarrow> bool" where
  "unsafe n \<longleftrightarrow> n > 9007199254740991 \<or> n < - 9007199254740991"

text \<open>
  The equality \<open>valid\<close> uses for an object: the same number of own properties, and under
  each name of the listed object a property that is equal in the same sense. Arrays are
  compared item by item, all other values are equal when they are the same value.
\<close>

fun deep_equal :: "json \<Rightarrow> json \<Rightarrow> bool"
  and deep_equal_items :: "json list \<Rightarrow> json list \<Rightarrow> bool"
  and deep_equal_props :: "(string \<times> json) list \<Rightarrow> (string \<times> json) list \<Rightarrow> bool"
where
  "deep_equal (JArr xs) (JArr ys) = deep_equal_items xs ys"
| "deep_equal (JObj kvs) (JObj kws) = (length kvs = length kws \<and> deep_equal_props kvs kws)"
| "deep_equal v w = (v = w)"
| "deep_equal_items [] ys = (ys = [])"
| "deep_equal_items (x # xs) ys =
     (case ys of [] \<Rightarrow> False | y # ys' \<Rightarrow> deep_equal x y \<and> deep_equal_items xs ys')"
| "deep_equal_props [] kws = True"
| "deep_equal_props ((k, v) # kvs) kws =
     ((case map_of kws k of None \<Rightarrow> False | Some w \<Rightarrow> deep_equal v w) \<and>
      deep_equal_props kvs kws)"

definition match_valid :: "json list \<Rightarrow> json \<Rightarrow> json option" where
  "match_valid valids v =
     (case v of
        JObj kvs \<Rightarrow> find (\<lambda>item. deep_equal item v) valids
      | _ \<Rightarrow> if v \<in> set valids then Some v else None)"

text \<open>
  The validators of a single value. Each returns the code of the error, or the value
  validation leaves (the listed value, the converted value).
\<close>

definition validate_string :: "json list \<Rightarrow> json \<Rightarrow> joi_code + json" where
  "validate_string valids v =
     (case match_valid valids v of
        Some w \<Rightarrow> Inr w
      | None \<Rightarrow>
          if valids \<noteq> [] then Inl any_only
          else (case v of
                  JStr s \<Rightarrow> if s = [] then Inl string_empty else Inr v
                | _ \<Rightarrow> Inl string_base))"

definition number_json :: "number \<Rightarrow> json" where
  "number_json n = (case n of Finite q \<Rightarrow> JNum q | Infinite b \<Rightarrow> JInfinity b)"

definition below :: "rat \<Rightarrow> number option \<Rightarrow> bool" where
  "below n minimum =
     (case minimum of None \<Rightarrow> False | Some (Finite lo) \<Rightarrow> n < lo | Some (Infinite b) \<Rightarrow> b)"

definition above :: "rat \<Rightarrow> number option \<Rightarrow> bool" where
  "above n maximum =
     (case maximum of None \<Rightarrow> False | Some (Finite hi) \<Rightarrow> hi < n | Some (Infinite b) \<Rightarrow> \<not> b)"

definition validate_number :: "convert \<Rightarrow> number option \<Rightarrow> number option \<Rightarrow> json \<Rightarrow> joi_code + json" where
  "validate_number c minimum maximum v =
     (case (case v of
              JStr s \<Rightarrow>
                (case number_of_string c s of
                   None \<Rightarrow> Inr v
                 | Some (Inl code) \<Rightarrow> Inl code
                 | Some (Inr n) \<Rightarrow> Inr (number_json n))
            | _ \<Rightarrow> Inr v) of
        Inl code \<Rightarrow> Inl code
      | Inr w \<Rightarrow>
          (case w of
             JInfinity b \<Rightarrow> Inl number_infinity
           | JNum n \<Rightarrow>
               if unsafe n then Inl number_unsafe
               else if below n minimum then Inl number_min
               else if above n maximum then Inl number_max
               else Inr (JNum n)
           | _ \<Rightarrow> Inl number_base))"

definition validate_boolean :: "convert \<Rightarrow> json \<Rightarrow> joi_code + json" where
  "validate_boolean c v =
     (case (case v of
              JStr s \<Rightarrow> (case boolean_of_string c s of Some b \<Rightarrow> JBool b | None \<Rightarrow> v)
            | _ \<Rightarrow> v) of
        JBool b \<Rightarrow> Inr (JBool b)
      | _ \<Rightarrow> Inl boolean_base)"

definition coerce_object :: "convert \<Rightarrow> json \<Rightarrow> json" where
  "coerce_object c v =
     (case v of
        JStr s \<Rightarrow> (case object_of_string c s of Some w \<Rightarrow> w | None \<Rightarrow> v)
      | _ \<Rightarrow> v)"

text \<open>
  Joi validates the keys of an object on a shallow clone it makes with \<open>Object.assign\<close>,
  and reads a key as \<open>value[key]\<close>. So an own property \<open>__proto__\<close> of the value is not a
  property of the clone: assigning it sets the prototype of the clone when it is an
  object, an array or \<open>null\<close>. And a key the clone has no own property for is read from
  its prototype chain: from the value given as \<open>__proto__\<close>, and from \<open>Object.prototype\<close>,
  whose members are functions. (The accessor \<open>__proto__\<close> itself is never read: no
  compiled validator has a key of that name.)
\<close>

definition object_prototype :: "string list" where
  "object_prototype =
     [''constructor'', ''__defineGetter__'', ''__defineSetter__'', ''hasOwnProperty'',
      ''__lookupGetter__'', ''__lookupSetter__'', ''isPrototypeOf'', ''propertyIsEnumerable'',
      ''toString'', ''valueOf'', ''toLocaleString'']"

definition own_properties :: "(string \<times> json) list \<Rightarrow> (string \<times> json) list" where
  "own_properties kvs = filter (\<lambda>kv. fst kv \<noteq> ''__proto__'') kvs"

definition inherited :: "convert \<Rightarrow> (string \<times> json) list \<Rightarrow> string \<Rightarrow> json option" where
  "inherited c kvs k =
     (let from_object = (if k \<in> set object_prototype then Some JFunction else None) in
      case map_of kvs ''__proto__'' of
        Some (JObj pkvs) \<Rightarrow> (case map_of pkvs k of Some v \<Rightarrow> Some v | None \<Rightarrow> from_object)
      | Some (JArr xs) \<Rightarrow>
          (case array_index k of
             Some n \<Rightarrow> if n < length xs then Some (xs ! n) else from_object
           | None \<Rightarrow>
               if k = ''length'' then Some (JNum (of_nat (length xs)))
               else if array_method c k then Some JFunction
               else from_object)
      | Some JNull \<Rightarrow> None
      | _ \<Rightarrow> from_object)"

definition required_item :: "joi \<Rightarrow> bool" where
  "required_item item = (case item of JoiObject keys required \<Rightarrow> required | _ \<Rightarrow> False)"

lemma keys_size_less: "sum_list (map (\<lambda>ks. Suc (size (snd ks))) keys) < size (JoiObject keys r)"
  by (induction keys) auto

function (sequential) joi_validate :: "convert \<Rightarrow> joi \<Rightarrow> seg list \<Rightarrow> json option \<Rightarrow> detail + json option"
  and validate_items :: "convert \<Rightarrow> joi \<Rightarrow> seg list \<Rightarrow> nat \<Rightarrow> json list \<Rightarrow> detail + json list"
  and validate_keys ::
    "convert \<Rightarrow> (string \<times> joi) list \<Rightarrow> seg list \<Rightarrow> (string \<times> json) list \<Rightarrow>
     (string \<times> json) list \<Rightarrow> detail + (string \<times> json) list"
where
  "joi_validate c JoiAny p u = Inr u"
| "joi_validate c (JoiString valids) p u =
     (case u of
        None \<Rightarrow> Inr None
      | Some v \<Rightarrow>
          (case validate_string valids v of
             Inl code \<Rightarrow> Inl (Detail p code)
           | Inr w \<Rightarrow> Inr (Some w)))"
| "joi_validate c (JoiNumber minimum maximum) p u =
     (case u of
        None \<Rightarrow> Inr None
      | Some v \<Rightarrow>
          (case validate_number c minimum maximum v of
             Inl code \<Rightarrow> Inl (Detail p code)
           | Inr w \<Rightarrow> Inr (Some w)))"
| "joi_validate c JoiBoolean p u =
     (case u of
        None \<Rightarrow> Inr None
      | Some v \<Rightarrow>
          (case validate_boolean c v of
             Inl code \<Rightarrow> Inl (Detail p code)
           | Inr w \<Rightarrow> Inr (Some w)))"
| "joi_validate c (JoiArray None) p u =
     (case u of
        None \<Rightarrow> Inr None
      | Some v \<Rightarrow> (case v of JArr xs \<Rightarrow> Inr (Some v) | _ \<Rightarrow> Inl (Detail p array_base)))"
| "joi_validate c (JoiArray (Some item)) p u =
     (case u of
        None \<Rightarrow> Inr None
      | Some v \<Rightarrow>
          (case v of
             JArr xs \<Rightarrow>
               (case validate_items c item p 0 xs of
                  Inl d \<Rightarrow> Inl d
                | Inr ys \<Rightarrow>
                    if required_item item \<and> xs = []
                    then Inl (Detail p array_includesRequiredUnknowns)
                    else Inr (Some (JArr ys)))
           | _ \<Rightarrow> Inl (Detail p array_base)))"
| "joi_validate c (JoiObject keys required) p u =
     (case u of
        None \<Rightarrow> if required then Inl (Detail p any_required) else Inr None
      | Some v \<Rightarrow>
          (case coerce_object c v of
             JObj kvs \<Rightarrow>
               (case validate_keys c keys p kvs (own_properties kvs) of
                  Inl d \<Rightarrow> Inl d
                | Inr own \<Rightarrow>
                    (case filter (\<lambda>k. k \<notin> set (map fst keys)) (map fst (own_properties kvs)) of
                       [] \<Rightarrow> Inr (Some (JObj own))
                     | k # _ \<Rightarrow> Inl (Detail (p @ [Key k]) object_unknown)))
           | _ \<Rightarrow> Inl (Detail p object_base)))"
| "validate_items c item p i [] = Inr []"
| "validate_items c item p i (x # xs) =
     (case joi_validate c item (p @ [Index i]) (Some x) of
        Inl d \<Rightarrow> Inl d
      | Inr y \<Rightarrow>
          (case validate_items c item p (Suc i) xs of
             Inl d \<Rightarrow> Inl d
           | Inr ys \<Rightarrow> Inr ((case y of Some y' \<Rightarrow> y' | None \<Rightarrow> x) # ys)))"
| "validate_keys c [] p kvs own = Inr own"
| "validate_keys c ((k, schema) # keys) p kvs own =
     (case joi_validate c schema (p @ [Key k])
             (case map_of own k of Some v \<Rightarrow> Some v | None \<Rightarrow> inherited c kvs k) of
        Inl d \<Rightarrow> Inl d
      | Inr None \<Rightarrow> validate_keys c keys p kvs own
      | Inr (Some w) \<Rightarrow> validate_keys c keys p kvs (define_own k w own))"
  by pat_completeness auto
termination
  apply (relation "measures
     [\<lambda>x. case x of
             Inl (c, s, p, u) \<Rightarrow> size s
           | Inr (Inl (c, item, p, i, xs)) \<Rightarrow> size item
           | Inr (Inr (c, keys, p, kvs, own)) \<Rightarrow> sum_list (map (\<lambda>ks. Suc (size (snd ks))) keys),
      \<lambda>x. case x of
             Inl (c, s, p, u) \<Rightarrow> 0
           | Inr (Inl (c, item, p, i, xs)) \<Rightarrow> Suc (length xs)
           | Inr (Inr (c, keys, p, kvs, own)) \<Rightarrow> 0]")
        apply (simp_all add: keys_size_less del: joi.size)
  apply simp
  done

section \<open>\<open>JSON.parse\<close> of a value that is no text\<close>

text \<open>
  \<open>JSON.parse(x)\<close> converts \<open>x\<close> to a string and parses that. The text of \<open>null\<close>, of a
  boolean and of a finite number is the JSON literal of the same value. The text of an
  object is \<open>[object Object]\<close>, that of an empty array is empty, that of an infinity is
  its name: none of them is JSON. An object with an own property \<open>toString\<close> that is no
  function cannot be converted to a string at all. For a string and for an array with
  items the result is what the platform makes of the text.
\<close>

definition JSON_parse :: "convert \<Rightarrow> json \<Rightarrow> error + json" where
  "JSON_parse c v =
     (case v of
        JNull \<Rightarrow> Inr v
      | JBool b \<Rightarrow> Inr v
      | JNum n \<Rightarrow> Inr v
      | JInfinity b \<Rightarrow> Inl SyntaxError
      | JStr s \<Rightarrow> json_of_text c v
      | JArr xs \<Rightarrow> if xs = [] then Inl SyntaxError else json_of_text c v
      | JObj kvs \<Rightarrow>
          (case map_of kvs ''toString'' of
             None \<Rightarrow> Inl SyntaxError
           | Some JFunction \<Rightarrow> Inl SyntaxError
           | Some w \<Rightarrow> Inl TypeError)
      | JFunction \<Rightarrow> Inl SyntaxError)"

section \<open>ConfigService: compiling a validation schema and validating a value\<close>

text \<open>
  \<open>convertToJoiSchema\<close> and \<open>convertPropertyToJoi\<close> read a schema that is any JSON value.
  Compilation throws where JavaScript or Joi does: a property of \<open>null\<close> is read
  (\<open>TypeError\<close>), \<open>...property.enum\<close> spreads a value that is not iterable
  (\<open>TypeError\<close>), \<open>valid\<close> is given an array, or \<open>min\<close>/\<open>max\<close> a limit that is not a
  number (an assertion of Joi). The \<open>case\<close> of \<open>switch (property.type)\<close> is chosen by
  strict equality, so only a string selects a branch other than the default.
\<close>

fun spread :: "json \<Rightarrow> error + json list" where
  "spread (JArr xs) = Inr xs"
| "spread (JStr s) = Inr (map (\<lambda>ch. JStr [ch]) s)"
| "spread v = Inl TypeError"

fun is_array :: "json \<Rightarrow> bool" where
  "is_array (JArr xs) = True"
| "is_array v = False"

fun limit :: "json option \<Rightarrow> error + number option" where
  "limit None = Inr None"
| "limit (Some (JNum n)) = Inr (Some (Finite n))"
| "limit (Some (JInfinity b)) = Inr (Some (Infinite b))"
| "limit (Some v) = Inl JoiAssertion"

lemma js_prop_size: "js_prop v name = Some w \<Longrightarrow> size w < size v"
proof (cases v)
  case (JObj kvs)
  assume "js_prop v name = Some w"
  with JObj have "(name, w) \<in> set kvs" by (simp add: map_of_SomeD)
  then have "size w < size_list (size_prod (\<lambda>x. 0) size) kvs"
    by (induction kvs) auto
  with JObj show ?thesis by simp
qed simp_all

definition max_size :: "(string \<times> json) list \<Rightarrow> nat" where
  "max_size ps = foldr (\<lambda>kv m. max (size (snd kv)) m) ps 0"

lemma max_size_simps [simp]:
  "max_size [] = 0" "max_size ((k, v) # ps) = max (size v) (max_size ps)"
  by (simp_all add: max_size_def)

lemma max_size_bound: "(\<And>v. v \<in> snd ` set ps \<Longrightarrow> size v \<le> n) \<Longrightarrow> max_size ps \<le> n"
  by (induction ps) auto

lemma snd_indexed: "snd ` set (indexed i xs) = set xs"
  by (induction i xs rule: indexed.induct) auto

lemma entries_size: "w \<in> snd ` set (entries v) \<Longrightarrow> size w \<le> size v"
proof (cases v)
  case (JArr xs)
  assume "w \<in> snd ` set (entries v)"
  with JArr have "w \<in> set xs" by (simp add: snd_indexed)
  then have "size w < size_list size xs" by (induction xs) auto
  with JArr show ?thesis by simp
next
  case (JObj kvs)
  assume "w \<in> snd ` set (entries v)"
  with JObj obtain k where "(k, w) \<in> set kvs" by auto
  then have "size w < size_list (size_prod (\<lambda>x. 0) size) kvs"
    by (induction kvs) auto
  with JObj show ?thesis by simp
next
  case (JStr s)
  assume "w \<in> snd ` set (entries v)"
  with JStr show ?thesis by (auto simp: snd_indexed)
qed simp_all

lemma entries_max_size: "js_prop v name = Some w \<Longrightarrow> max_size (entries w) < size v"
  using max_size_bound [of "entries w" "size w"] entries_size [of _ w] js_prop_size [of v name w]
  by fastforce

text \<open>
  The loop of \<open>convertToJoiSchema\<close> over \<open>Object.entries(jsonSchema.properties)\<close> is
  \<open>convertProperties\<close>; the validators it returns are assigned to \<open>joiObject\<close> one by one.
  The assignment \<open>joiObject['__proto__'] = ...\<close> defines no property: it makes a Joi
  validator the prototype of \<open>joiObject\<close>, and \<open>Joi.object\<close> refuses such an object. The
  two functions call each other on the same schema (a property of type \<open>object\<close> is handed
  back to \<open>convertToJoiSchema\<close>), so termination is by the size of the schema first and by
  the branch taken second.
\<close>

function (sequential) convertToJoiSchema :: "json \<Rightarrow> error + joi"
  and convertPropertyToJoi :: "json \<Rightarrow> error + joi"
  and convertProperties :: "(string \<times> json) list \<Rightarrow> error + (string \<times> joi) list"
where
  "convertToJoiSchema jsonSchema =
     (if jsonSchema = JNull then Inl TypeError
      else if js_prop jsonSchema ''type'' = Some (JStr ''object'') then
        (case (case js_prop jsonSchema ''properties'' of
                 None \<Rightarrow> Inr []
               | Some properties \<Rightarrow>
                   if truthy properties then convertProperties (entries properties) else Inr []) of
           Inl e \<Rightarrow> Inl e
         | Inr converted \<Rightarrow>
             if ''__proto__'' \<in> set (map fst converted) then Inl JoiAssertion
             else Inr (JoiObject (assign converted)
                         (truthy_opt (js_prop jsonSchema ''required''))))
      else convertPropertyToJoi jsonSchema)"
| "convertPropertyToJoi property =
     (if property = JNull then Inl TypeError
      else (case js_prop property ''type'' of
        Some (JStr t) \<Rightarrow>
          if t = ''string'' then
            (case js_prop property ''enum'' of
               None \<Rightarrow> Inr (JoiString [])
             | Some enum \<Rightarrow>
                 if truthy enum then
                   (case spread enum of
                      Inl e \<Rightarrow> Inl e
                    | Inr valids \<Rightarrow>
                        if list_ex is_array valids then Inl JoiAssertion
                        else Inr (JoiString valids))
                 else Inr (JoiString []))
          else if t = ''number'' then
            (case limit (js_prop property ''minimum'') of
               Inl e \<Rightarrow> Inl e
             | Inr minimum \<Rightarrow>
                 (case limit (js_prop property ''maximum'') of
                    Inl e \<Rightarrow> Inl e
                  | Inr maximum \<Rightarrow> Inr (JoiNumber minimum maximum)))
          else if t = ''boolean'' then Inr JoiBoolean
          else if t = ''array'' then
            (case js_prop property ''items'' of
               None \<Rightarrow> Inr (JoiArray None)
             | Some items \<Rightarrow>
                 if truthy items then
                   (case convertPropertyToJoi items of
                      Inl e \<Rightarrow> Inl e
                    | Inr item \<Rightarrow> Inr (JoiArray (Some item)))
                 else Inr (JoiArray None))
          else if t = ''object'' then convertToJoiSchema property
          else Inr JoiAny
      | _ \<Rightarrow> Inr JoiAny))"
| "convertProperties [] = Inr []"
| "convertProperties ((key, property) # ps) =
     (case convertPropertyToJoi property of
        Inl e \<Rightarrow> Inl e
      | Inr schema \<Rightarrow>
          (case convertProperties ps of
             Inl e \<Rightarrow> Inl e
           | Inr converted \<Rightarrow> Inr ((key, schema) # converted)))"
  by pat_completeness auto
termination
  apply (relation "measures
     [\<lambda>x. case x of
             Inl jsonSchema \<Rightarrow> size jsonSchema
           | Inr (Inl property) \<Rightarrow> size property
           | Inr (Inr ps) \<Rightarrow> max_size ps,
      \<lambda>x. case x of
             Inl jsonSchema \<Rightarrow>
               if js_prop jsonSchema ''type'' = Some (JStr ''object'') then 0 else 2
           | Inr (Inl property) \<Rightarrow> 1
           | Inr (Inr ps) \<Rightarrow> 2 + length ps]")
        apply (auto simp: entries_max_size js_prop_size simp del: json.size)
  done

declare convertToJoiSchema.simps [simp del] convertPropertyToJoi.simps [simp del]

text \<open>
  \<open>detail.path.join('.')\<close>: \<open>Array.prototype.join\<close> starts with the text of the first
  element and appends the separator and the text of each further element; an index is
  printed in decimal.
\<close>

definition seg_text :: "seg \<Rightarrow> string" where
  "seg_text s = (case s of Key k \<Rightarrow> k | Index i \<Rightarrow> show_nat i)"

definition join :: "string \<Rightarrow> seg list \<Rightarrow> string" where
  "join separator path =
     (case path of
        [] \<Rightarrow> []
      | s # rest \<Rightarrow> foldl (\<lambda>r s'. r @ separator @ seg_text s') (seg_text s) rest)"

text \<open>
  The object \<open>validateConfig\<close> returns. \<open>errors\<close> and \<open>value\<close> are \<open>None\<close> where the
  object has no such property (the field \<open>value\<close> is named \<open>validated\<close> here).
\<close>

record validation =
  valid :: bool
  errors :: "validation_error list option"
  validated :: "json option"

definition validateConfig :: "convert \<Rightarrow> json option \<Rightarrow> json option \<Rightarrow> validation" where
  "validateConfig c configValue validationSchema =
     (case validationSchema of
        None \<Rightarrow> \<lparr>valid = True, errors = None, validated = None\<rparr>
      | Some jsonSchema \<Rightarrow>
          if \<not> truthy jsonSchema then \<lparr>valid = True, errors = None, validated = None\<rparr>
          else
            (case convertToJoiSchema jsonSchema of
               Inl e \<Rightarrow>
                 \<lparr>valid = False,
                  errors = Some [\<lparr>field = ''schema'', message = InvalidSchemaMessage\<rparr>],
                  validated = None\<rparr>
             | Inr schema \<Rightarrow>
                 (case joi_validate c schema [] configValue of
                    Inl (Detail path code) \<Rightarrow>
                      \<lparr>valid = False,
                       errors = Some [\<lparr>field = join ''.'' path, message = JoiMessage code\<rparr>],
                       validated = None\<rparr>
                  | Inr v \<Rightarrow> \<lparr>valid = True, errors = None, validated = v\<rparr>)))"

section \<open>What the specification asks of the errors: every failing leaf\<close>





section \<open>The JavaScript \<open>Map\<close>: an association list in insertion order\<close>

text \<open>
  \<open>Map.prototype.set\<close> overwrites the value of a key that is present, leaving its place
  in the iteration order, and appends a key that is absent; \<open>keys().next().value\<close> is
  the first key of the list.
\<close>

fun js_map_has :: "('k \<times> 'v) list \<Rightarrow> 'k \<Rightarrow> bool" where
  "js_map_has [] k = False"
| "js_map_has ((k', v) # m) k = (k' = k \<or> js_map_has m k)"

fun js_map_get :: "('k \<times> 'v) list \<Rightarrow> 'k \<Rightarrow> 'v option" where
  "js_map_get [] k = None"
| "js_map_get ((k', v) # m) k = (if k' = k then Some v else js_map_get m k)"

fun js_map_set :: "'k \<Rightarrow> 'v \<Rightarrow> ('k \<times> 'v) list \<Rightarrow> ('k \<times> 'v) list" where
  "js_map_set k v [] = [(k, v)]"
| "js_map_set k v ((k', v') # m) =
     (if k' = k then (k, v) # m else (k', v') # js_map_set k v m)"

fun js_map_delete :: "'k \<Rightarrow> ('k \<times> 'v) list \<Rightarrow> ('k \<times> 'v) list" where
  "js_map_delete k [] = []"
| "js_map_delete k ((k', v) # m) =
     (if k' = k then js_map_delete k m else (k', v) # js_map_delete k m)"

section \<open>The rows of \<open>system_configurations\<close>\<close>

text \<open>
  An entry of the change log, as \<open>JSON.stringify\<close> writes it: \<open>old_value\<close>, \<open>new_value\<close>
  and \<open>changed_by\<close> are \<open>None\<close> where the entry has no such property.
\<close>

datatype action = CREATE | UPDATE | DELETE

record change_entry =
  action :: action
  old_value :: "json option"
  new_value :: "json option"
  changed_by :: "string option"
  changed_at :: int

text \<open>
  The payload of an update (\<open>updateData\<close>), the payload of a create (\<open>configData\<close>) and
  a stored row share their fields, so the three are one record hierarchy. A field that
  JavaScript leaves \<open>undefined\<close> (and SQL stores as NULL) is \<open>None\<close>.

  The columns \<open>config_value\<close>, \<open>validation_schema\<close> and \<open>change_log\<close> are of type JSONB
  (\<open>src/database/migrate.js\<close>), and the service leaves the type parsers of the driver as
  they are: a row the driver returns holds the values of these columns, not their
  texts. A row of the model is the row as the driver returns it. (PostgreSQL keeps the
  keys of an object in an order of its own; the model leaves them in the order written.)
\<close>

record value_data =
  config_value :: json
  description :: "string option"
  validation_schema :: "json option"

record update_data = value_data +
  updated_by :: "string option"

record config_data = value_data +
  config_key :: string
  config_type :: string
  config_category :: string
  created_by :: "string option"

record config_row = config_data +
  row_id :: nat
  version :: int
  created_at :: int
  updated_at :: int
  active :: bool
  change_log :: "change_entry list option"

text \<open>
  The table: its rows in the order they were inserted, and the next value of the
  sequence behind \<open>id SERIAL\<close>.
\<close>

record database =
  rows :: "config_row list"
  next_id :: nat

section \<open>ConfigModel: the queries\<close>

text \<open>
  Every method takes the faults of the call and the reading of the clock. A statement
  that fails throws and changes nothing. \<open>createConfig\<close> runs its statements one by
  one, each committed as it ends. \<open>updateConfig\<close> and \<open>deleteConfig\<close> run theirs between
  \<open>BEGIN\<close> and \<open>COMMIT\<close>: the statements take effect at \<open>COMMIT\<close>, and \<open>ROLLBACK\<close>
  discards them. PostgreSQL aborts a transaction in which a statement has failed:
  \<open>COMMIT\<close> then ends the transaction without error and discards its statements.
\<close>

text \<open>
  The constraints of the table that an \<open>INSERT\<close> can violate: \<open>config_key\<close> is unique
  among all rows, active or not, the \<open>VARCHAR\<close> columns bound the length of their
  values, and \<open>config_value\<close> is not NULL (\<open>JSON.stringify\<close> has no text for a
  function).
\<close>

definition insert_violation :: "database \<Rightarrow> config_data \<Rightarrow> bool" where
  "insert_violation db configData \<longleftrightarrow>
     list_ex (\<lambda>r. config_key r = config_key configData) (rows db) \<or>
     100 < length (config_key configData) \<or>
     50 < length (config_type configData) \<or>
     50 < length (config_category configData) \<or>
     (case created_by configData of Some u \<Rightarrow> 100 < length u | None \<Rightarrow> False) \<or>
     config_value configData = JFunction"

text \<open>\<open>changeLog.slice(-50)\<close>\<close>

definition slice_last :: "nat \<Rightarrow> 'a list \<Rightarrow> 'a list" where
  "slice_last n xs = drop (length xs - n) xs"

text \<open>A property of an entry, as \<open>JSON.stringify\<close> writes it.\<close>

definition stringify_property :: "json \<Rightarrow> json option" where
  "stringify_property v = (if v = JFunction then None else Some (stringify v))"

text \<open>
  \<open>addToHistory\<close> reads \<open>change_log\<close> and hands it to \<open>JSON.parse\<close>. The column holds an
  array of entries, empty by default; the text of such an array is empty or starts with
  \<open>[object Object]\<close>, so \<open>JSON.parse\<close> throws, and the \<open>catch\<close> of \<open>addToHistory\<close> ends
  the append. Only where the column is NULL does the append go on. The result tells
  whether a statement of the append has failed, and gives the table it leaves.
\<close>

definition addToHistory ::
  "faults \<Rightarrow> int \<Rightarrow> nat \<Rightarrow> action \<Rightarrow> json \<Rightarrow> json \<Rightarrow> string option \<Rightarrow> database \<Rightarrow>
   bool \<times> database"
where
  "addToHistory f now configId act oldValue newValue changedBy db =
     (if f HistorySelect then (True, db)
      else
        (case (case filter (\<lambda>r. row_id r = configId) (rows db) of
                 [] \<Rightarrow> Inr []
               | r # _ \<Rightarrow>
                   (case change_log r of
                      None \<Rightarrow> Inr []
                    | Some stored \<Rightarrow> Inl SyntaxError)) of
           Inl e \<Rightarrow> (False, db)
         | Inr changeLog \<Rightarrow>
             let newEntry = \<lparr>action = act, old_value = stringify_property oldValue,
                             new_value = stringify_property newValue,
                             changed_by = changedBy, changed_at = now\<rparr>;
                 changeLog1 = changeLog @ [newEntry];
                 changeLog2 = (if 50 < length changeLog1 then slice_last 50 changeLog1
                               else changeLog1)
             in if f HistoryUpdate then (True, db)
                else (False,
                      db\<lparr>rows := map (\<lambda>r. if row_id r = configId
                                           then r\<lparr>change_log := Some changeLog2\<rparr> else r)
                                    (rows db)\<rparr>)))"

text \<open>
  The row an \<open>INSERT\<close> stores and returns: the values given, and the defaults of the
  other columns (\<open>version 1\<close>, \<open>active\<close>, an empty change log).
\<close>

definition inserted_row :: "nat \<Rightarrow> int \<Rightarrow> config_data \<Rightarrow> config_row" where
  "inserted_row i now configData =
     \<lparr>config_value = stringify (config_value configData),
      description = description configData,
      validation_schema =
        (if truthy_opt (validation_schema configData)
         then map_option stringify (validation_schema configData) else None),
      config_key = config_key configData,
      config_type = config_type configData,
      config_category = config_category configData,
      created_by = created_by configData,
      row_id = i, version = 1, created_at = now, updated_at = now,
      active = True, change_log = Some []\<rparr>"

text \<open>
  \<open>createConfig\<close>. An \<open>INSERT\<close> that violates a constraint has taken its \<open>id\<close> from the
  sequence all the same.
\<close>

definition ConfigModel_createConfig ::
  "faults \<Rightarrow> int \<Rightarrow> config_data \<Rightarrow> database \<Rightarrow> (error + config_row) \<times> database"
where
  "ConfigModel_createConfig f now configData db =
     (if f PoolConnect then (Inl (StoreError PoolConnect), db)
      else if f InsertQuery then (Inl (StoreError InsertQuery), db)
      else if insert_violation db configData
        then (Inl ConstraintViolation, db\<lparr>next_id := Suc (next_id db)\<rparr>)
      else
        let row = inserted_row (next_id db) now configData;
            db1 = db\<lparr>rows := rows db @ [row], next_id := Suc (next_id db)\<rparr>
        in (Inr row,
            snd (addToHistory f now (row_id row) CREATE JNull (config_value configData)
                   (created_by configData) db1)))"

text \<open>\<open>WHERE config_key = $1 AND active = true ORDER BY version DESC LIMIT 1\<close>\<close>

definition select_active :: "database \<Rightarrow> string \<Rightarrow> config_row option" where
  "select_active db configKey =
     (case sort_key (\<lambda>r. - version r)
             (filter (\<lambda>r. config_key r = configKey \<and> active r) (rows db)) of
        [] \<Rightarrow> None
      | r # _ \<Rightarrow> Some r)"

text \<open>
  \<open>JSON.parse\<close> of \<open>config_value\<close> and, when it is truthy, of \<open>validation_schema\<close>: what
  \<open>getConfig\<close> and \<open>updateConfig\<close> do to a row the driver has returned.
\<close>

definition parse_values :: "convert \<Rightarrow> config_row \<Rightarrow> error + config_row" where
  "parse_values c config =
     (case JSON_parse c (config_value config) of
        Inl e \<Rightarrow> Inl e
      | Inr v \<Rightarrow>
          (case validation_schema config of
             None \<Rightarrow> Inr (config\<lparr>config_value := v\<rparr>)
           | Some schema \<Rightarrow>
               if truthy schema
               then (case JSON_parse c schema of
                       Inl e \<Rightarrow> Inl e
                     | Inr w \<Rightarrow> Inr (config\<lparr>config_value := v, validation_schema := Some w\<rparr>))
               else Inr (config\<lparr>config_value := v\<rparr>)))"

text \<open>
  What \<open>getConfig\<close> makes of the row it has selected: after the two values it hands
  \<open>change_log\<close> to \<open>JSON.parse\<close> when it is truthy, which an array is. The text of an
  array of entries is no JSON, so this step throws for every row whose \<open>change_log\<close> is
  not NULL.
\<close>

definition parse_columns :: "convert \<Rightarrow> config_row \<Rightarrow> error + config_row" where
  "parse_columns c config =
     (case parse_values c config of
        Inl e \<Rightarrow> Inl e
      | Inr parsed \<Rightarrow>
          (case change_log parsed of
             None \<Rightarrow> Inr parsed
           | Some stored \<Rightarrow> Inl SyntaxError))"

definition ConfigModel_getConfig ::
  "convert \<Rightarrow> faults \<Rightarrow> string \<Rightarrow> database \<Rightarrow> error + config_row option"
where
  "ConfigModel_getConfig c f configKey db =
     (if f PoolConnect then Inl (StoreError PoolConnect)
      else if f SelectQuery then Inl (StoreError SelectQuery)
      else
        (case select_active db configKey of
           None \<Rightarrow> Inr None
         | Some config \<Rightarrow>
             (case parse_columns c config of
                Inl e \<Rightarrow> Inl e
              | Inr parsed \<Rightarrow> Inr (Some parsed))))"

text \<open>
  The \<open>catch\<close> block of \<open>updateConfig\<close> and \<open>deleteConfig\<close>: \<open>ROLLBACK\<close>, then the error
  is thrown again, unless \<open>ROLLBACK\<close> itself throws.
\<close>

definition rollback :: "faults \<Rightarrow> error \<Rightarrow> error" where
  "rollback f e = (if f RollbackQuery then StoreError RollbackQuery else e)"

text \<open>
  The \<open>UPDATE\<close> of \<open>updateConfig\<close>. \<open>version\<close> is an \<open>INTEGER\<close>: the statement fails when
  \<open>version + 1\<close> is out of range, and when the new value has no text.
\<close>

definition update_row :: "int \<Rightarrow> update_data \<Rightarrow> config_row \<Rightarrow> config_row" where
  "update_row now updateData r =
     r\<lparr>config_value := stringify (config_value updateData),
       description := (case description updateData of Some d \<Rightarrow> Some d | None \<Rightarrow> description r),
       validation_schema :=
         (if truthy_opt (validation_schema updateData)
          then map_option stringify (validation_schema updateData)
          else validation_schema r),
       version := version r + 1,
       updated_at := now\<rparr>"

text \<open>
  \<open>updateConfig\<close>. After \<open>COMMIT\<close> the method hands \<open>config_value\<close> and \<open>validation_schema\<close>
  of the row the \<open>UPDATE\<close> returned to \<open>JSON.parse\<close>; an error thrown there reaches the
  \<open>catch\<close> block after the transaction has ended.
\<close>

definition ConfigModel_updateConfig ::
  "convert \<Rightarrow> faults \<Rightarrow> int \<Rightarrow> string \<Rightarrow> update_data \<Rightarrow> database \<Rightarrow>
   (error + config_row) \<times> database"
where
  "ConfigModel_updateConfig c f now configKey updateData db =
     (if f PoolConnect then (Inl (StoreError PoolConnect), db)
      else if f BeginQuery then (Inl (rollback f (StoreError BeginQuery)), db)
      else
        (case ConfigModel_getConfig c f configKey db of
           Inl e \<Rightarrow> (Inl (rollback f e), db)
         | Inr None \<Rightarrow> (Inl (rollback f NotFound), db)
         | Inr (Some currentConfig) \<Rightarrow>
             let hit = (\<lambda>r. config_key r = configKey \<and> active r) in
             if f UpdateQuery then (Inl (rollback f (StoreError UpdateQuery)), db)
             else if list_ex (\<lambda>r. hit r \<and> 2147483647 \<le> version r) (rows db) \<or>
                     config_value updateData = JFunction
               then (Inl (rollback f ConstraintViolation), db)
             else
               (case map (update_row now updateData) (filter hit (rows db)) of
                  [] \<Rightarrow> (Inl (rollback f TypeError), db)
                | updatedConfig # _ \<Rightarrow>
                    let db1 = db\<lparr>rows := map (\<lambda>r. if hit r then update_row now updateData r
                                                  else r) (rows db)\<rparr>;
                        (aborted, db2) = addToHistory f now (row_id updatedConfig) UPDATE
                                (config_value currentConfig) (config_value updateData)
                                (updated_by updateData) db1
                    in if f CommitQuery then (Inl (rollback f (StoreError CommitQuery)), db)
                       else
                         let db3 = (if aborted then db else db2) in
                         (case parse_values c updatedConfig of
                            Inl e \<Rightarrow> (Inl (rollback f e), db3)
                          | Inr parsed \<Rightarrow> (Inr parsed, db3)))))"

definition delete_row :: "int \<Rightarrow> config_row \<Rightarrow> config_row" where
  "delete_row now r = r\<lparr>active := False, updated_at := now\<rparr>"

definition ConfigModel_deleteConfig ::
  "convert \<Rightarrow> faults \<Rightarrow> int \<Rightarrow> string \<Rightarrow> string option \<Rightarrow> database \<Rightarrow>
   (error + config_row) \<times> database"
where
  "ConfigModel_deleteConfig c f now configKey deletedBy db =
     (if f PoolConnect then (Inl (StoreError PoolConnect), db)
      else if f BeginQuery then (Inl (rollback f (StoreError BeginQuery)), db)
      else
        (case ConfigModel_getConfig c f configKey db of
           Inl e \<Rightarrow> (Inl (rollback f e), db)
         | Inr None \<Rightarrow> (Inl (rollback f NotFound), db)
         | Inr (Some currentConfig) \<Rightarrow>
             let hit = (\<lambda>r. config_key r = configKey \<and> active r) in
             if f DeleteQuery then (Inl (rollback f (StoreError DeleteQuery)), db)
             else
               (case map (delete_row now) (filter hit (rows db)) of
                  [] \<Rightarrow> (Inl (rollback f TypeError), db)
                | deleted # _ \<Rightarrow>
                    let db1 = db\<lparr>rows := map (\<lambda>r. if hit r then delete_row now r else r)
                                           (rows db)\<rparr>;
                        (aborted, db2) = addToHistory f now (row_id deleted) DELETE
                                (config_value currentConfig) JNull deletedBy db1
                    in if f CommitQuery then (Inl (rollback f (StoreError CommitQuery)), db)
                       else (Inr deleted, if aborted then db else db2))))"

text \<open>
  \<open>getConfigHistory\<close>: \<open>WHERE config_key = $1 ORDER BY version DESC LIMIT 1\<close>, active or
  not, and \<open>JSON.parse\<close> of a \<open>change_log\<close> that is not NULL.
\<close>

definition ConfigModel_getConfigHistory ::
  "faults \<Rightarrow> string \<Rightarrow> database \<Rightarrow> error + change_entry list"
where
  "ConfigModel_getConfigHistory f configKey db =
     (if f PoolConnect then Inl (StoreError PoolConnect)
      else if f SelectQuery then Inl (StoreError SelectQuery)
      else
        (case sort_key (\<lambda>r. - version r) (filter (\<lambda>r. config_key r = configKey) (rows db)) of
           [] \<Rightarrow> Inr []
         | r # _ \<Rightarrow> (case change_log r of None \<Rightarrow> Inr [] | Some stored \<Rightarrow> Inl SyntaxError)))"

section \<open>ConfigService: the cache\<close>

text \<open>
  The service object: the model (the database behind it), the two maps of the cache, the
  subscriber sets, and the calls made to subscriber callbacks so far. A callback is
  known by a number; what it does with the notification is outside the service.
\<close>

record service =
  configModel :: database
  cache :: "(string \<times> config_row) list"
  cacheTTL :: "(string \<times> int) list"
  subscribers :: "(string \<times> nat list) list"
  notified :: "(nat \<times> string \<times> json) list"

text \<open>
  \<open>process.env\<close>: each variable is given by what \<open>parseInt\<close> makes of it, \<open>None\<close> for
  \<open>NaN\<close> (the variable is unset or does not start with a number).
\<close>

record env =
  CACHE_TTL :: "int option"
  CACHE_MAX_SIZE :: "int option"

text \<open>\<open>parseInt(x) || d\<close>: \<open>NaN\<close> and \<open>0\<close> are falsy.\<close>

definition parseInt_or :: "int option \<Rightarrow> int \<Rightarrow> int" where
  "parseInt_or x d = (case x of None \<Rightarrow> d | Some n \<Rightarrow> if n = 0 then d else n)"

definition getFromCache :: "int \<Rightarrow> string \<Rightarrow> service \<Rightarrow> config_row option \<times> service" where
  "getFromCache now key s =
     (if js_map_has (cache s) key then
        (case js_map_get (cacheTTL s) key of
           Some ttl \<Rightarrow>
             if ttl \<noteq> 0 \<and> now < ttl then (js_map_get (cache s) key, s)
             else (None, s\<lparr>cache := js_map_delete key (cache s),
                           cacheTTL := js_map_delete key (cacheTTL s)\<rparr>)
         | None \<Rightarrow>
             (None, s\<lparr>cache := js_map_delete key (cache s),
                       cacheTTL := js_map_delete key (cacheTTL s)\<rparr>))
      else (None, s))"

definition addToCache :: "env \<Rightarrow> int \<Rightarrow> string \<Rightarrow> config_row \<Rightarrow> service \<Rightarrow> service" where
  "addToCache e now key val s =
     (let ttl = now + parseInt_or (CACHE_TTL e) 3600 * 1000;
          s1 = s\<lparr>cache := js_map_set key val (cache s),
                  cacheTTL := js_map_set key ttl (cacheTTL s)\<rparr>;
          maxSize = parseInt_or (CACHE_MAX_SIZE e) 1000
      in if int (length (cache s1)) > maxSize then
           (case cache s1 of
              [] \<Rightarrow> s1
            | (firstKey, _) # _ \<Rightarrow>
                s1\<lparr>cache := js_map_delete firstKey (cache s1),
                    cacheTTL := js_map_delete firstKey (cacheTTL s1)\<rparr>)
         else s1)"

text \<open>\<open>clearCache(key)\<close>: a falsy key (\<open>undefined\<close> or the empty string) clears both maps.\<close>

definition clearCache :: "string option \<Rightarrow> service \<Rightarrow> service" where
  "clearCache key s =
     (case key of
        None \<Rightarrow> s\<lparr>cache := [], cacheTTL := []\<rparr>
      | Some k \<Rightarrow>
          if k \<noteq> [] then s\<lparr>cache := js_map_delete k (cache s),
                               cacheTTL := js_map_delete k (cacheTTL s)\<rparr>
          else s\<lparr>cache := [], cacheTTL := []\<rparr>)"

section \<open>ConfigService: the operations\<close>

text \<open>The constructor: a model, and empty maps.\<close>

definition new_service :: "database \<Rightarrow> service" where
  "new_service db =
     \<lparr>configModel = db, cache = [], cacheTTL = [], subscribers = [], notified = []\<rparr>"

text \<open>
  \<open>notifySubscribers\<close> calls every callback subscribed to the key; what a callback throws
  is caught, so each of them is called.
\<close>

definition notifySubscribers :: "string \<Rightarrow> json \<Rightarrow> service \<Rightarrow> service" where
  "notifySubscribers configKey newValue s =
     (case js_map_get (subscribers s) configKey of
        None \<Rightarrow> s
      | Some callbacks \<Rightarrow>
          s\<lparr>notified := notified s @ map (\<lambda>cb. (cb, configKey, newValue)) callbacks\<rparr>)"

definition ConfigService_createConfig ::
  "convert \<Rightarrow> faults \<Rightarrow> int \<Rightarrow> config_data \<Rightarrow> service \<Rightarrow> (error + config_row) \<times> service"
where
  "ConfigService_createConfig c f now configData s =
     (let validation = validateConfig c (Some (config_value configData))
                         (validation_schema configData)
      in if \<not> valid validation then (Inl (ValidationFailed (errors validation)), s)
         else
           (case ConfigModel_createConfig f now configData (configModel s) of
              (Inl e, db) \<Rightarrow> (Inl e, s\<lparr>configModel := db\<rparr>)
            | (Inr config, db) \<Rightarrow>
                (Inr config,
                 notifySubscribers (config_key config) (config_value config)
                   (clearCache (Some (config_key config)) (s\<lparr>configModel := db\<rparr>)))))"

definition ConfigService_getConfig ::
  "env \<Rightarrow> convert \<Rightarrow> faults \<Rightarrow> int \<Rightarrow> string \<Rightarrow> service \<Rightarrow>
   (error + config_row option) \<times> service"
where
  "ConfigService_getConfig e c f now configKey s =
     (case getFromCache now configKey s of
        (Some cached, s1) \<Rightarrow> (Inr (Some cached), s1)
      | (None, s1) \<Rightarrow>
          (case ConfigModel_getConfig c f configKey (configModel s1) of
             Inl err \<Rightarrow> (Inl err, s1)
           | Inr (Some config) \<Rightarrow> (Inr (Some config), addToCache e now configKey config s1)
           | Inr None \<Rightarrow> (Inr None, s1)))"

text \<open>\<open>getConfigValue(configKey, defaultValue = null)\<close>: \<open>None\<close> is the argument left out.\<close>

definition ConfigService_getConfigValue ::
  "env \<Rightarrow> convert \<Rightarrow> faults \<Rightarrow> int \<Rightarrow> string \<Rightarrow> json option \<Rightarrow> service \<Rightarrow>
   (error + json) \<times> service"
where
  "ConfigService_getConfigValue e c f now configKey defaultValue s =
     (let dflt = (case defaultValue of None \<Rightarrow> JNull | Some d \<Rightarrow> d) in
      case ConfigService_getConfig e c f now configKey s of
        (Inl err, s1) \<Rightarrow> (Inr dflt, s1)
      | (Inr None, s1) \<Rightarrow> (Inr dflt, s1)
      | (Inr (Some config), s1) \<Rightarrow> (Inr (config_value config), s1))"

definition ConfigService_updateConfig ::
  "convert \<Rightarrow> faults \<Rightarrow> int \<Rightarrow> string \<Rightarrow> update_data \<Rightarrow> service \<Rightarrow>
   (error + config_row) \<times> service"
where
  "ConfigService_updateConfig c f now configKey updateData s =
     (case ConfigModel_getConfig c f configKey (configModel s) of
        Inl e \<Rightarrow> (Inl e, s)
      | Inr None \<Rightarrow> (Inl NotFound, s)
      | Inr (Some currentConfig) \<Rightarrow>
          let validationSchema =
                js_or (validation_schema updateData) (validation_schema currentConfig);
              validation = validateConfig c (Some (config_value updateData)) validationSchema
          in if \<not> valid validation then (Inl (ValidationFailed (errors validation)), s)
             else
               (case ConfigModel_updateConfig c f now configKey updateData (configModel s) of
                  (Inl e, db) \<Rightarrow> (Inl e, s\<lparr>configModel := db\<rparr>)
                | (Inr config, db) \<Rightarrow>
                    (Inr config,
                     notifySubscribers configKey (config_value config)
                       (clearCache (Some configKey) (s\<lparr>configModel := db\<rparr>)))))"

definition ConfigService_deleteConfig ::
  "convert \<Rightarrow> faults \<Rightarrow> int \<Rightarrow> string \<Rightarrow> string option \<Rightarrow> service \<Rightarrow>
   (error + config_row) \<times> service"
where
  "ConfigService_deleteConfig c f now configKey deletedBy s =
     (case ConfigModel_deleteConfig c f now configKey deletedBy (configModel s) of
        (Inl e, db) \<Rightarrow> (Inl e, s\<lparr>configModel := db\<rparr>)
      | (Inr config, db) \<Rightarrow>
          (Inr config,
           notifySubscribers configKey JNull
             (clearCache (Some configKey) (s\<lparr>configModel := db\<rparr>))))"

section \<open>Runs and examples used to state the properties\<close>

text \<open>
  A run of calls to the three methods of the cache (\<open>addToCache\<close>, \<open>getFromCache\<close>,
  \<open>clearCache\<close>), each with its reading of the clock.
\<close>

datatype cache_op =
    Put string config_row
  | Lookup string
  | Clear "string option"

fun cache_step :: "env \<Rightarrow> int \<Rightarrow> cache_op \<Rightarrow> service \<Rightarrow> service" where
  "cache_step e now (Put key val) s = addToCache e now key val s"
| "cache_step e now (Lookup key) s = snd (getFromCache now key s)"
| "cache_step e now (Clear key) s = clearCache key s"

fun cache_run :: "env \<Rightarrow> (int \<times> cache_op) list \<Rightarrow> service \<Rightarrow> service" where
  "cache_run e [] s = s"
| "cache_run e ((now, op) # ops) s = cache_run e ops (cache_step e now op s)"

text \<open>
  What every run of cache operations keeps true of the two maps: each key once, the
  same keys in the same order in both, and no more entries than the maximum allows.
\<close>

definition cache_inv :: "int \<Rightarrow> service \<Rightarrow> bool" where
  "cache_inv M s \<longleftrightarrow>
     distinct (map fst (cache s)) \<and> map fst (cacheTTL s) = map fst (cache s) \<and>
     int (length (cache s)) \<le> max 0 M"

text \<open>
  A platform for the examples, in which no text is met: no string is converted, and no
  awaited call fails.
\<close>

definition no_convert :: convert where
  "no_convert = \<lparr>number_of_string = (\<lambda>s. None), boolean_of_string = (\<lambda>s. None),
                  object_of_string = (\<lambda>s. None), json_of_text = (\<lambda>v. Inl SyntaxError),
                  array_method = (\<lambda>k. False)\<rparr>"

definition no_faults :: faults where
  "no_faults site = False"

text \<open>
  The schema of the scenario in the specification,
  \<open>{type: "object", properties: {x: {type: "number", minimum: 0}}, required: ["x"]}\<close>,
  a schema with two numeric properties, and a schema with an array of objects.
\<close>

definition schema_x :: json where
  "schema_x = JObj [(''type'', JStr ''object''),
      (''properties'', JObj [(''x'', JObj [(''type'', JStr ''number''), (''minimum'', JNum 0)])]),
      (''required'', JArr [JStr ''x''])]"




text \<open>
  A configuration with the schema \<open>schema_x\<close>, and the table after it has been created
  in an empty table at time 0.
\<close>

definition limits_config :: config_data where
  "limits_config =
     \<lparr>config_value = JObj [(''x'', JNum 1)], description = None,
      validation_schema = Some schema_x, config_key = ''limits'', config_type = ''system'',
      config_category = ''performance'', created_by = Some ''api_user''\<rparr>"

definition limits_row :: config_row where
  "limits_row =
     \<lparr>config_value = JObj [(''x'', JNum 1)], description = None,
      validation_schema = Some schema_x, config_key = ''limits'', config_type = ''system'',
      config_category = ''performance'', created_by = Some ''api_user'',
      row_id = 1, version = 1, created_at = 0, updated_at = 0, active = True,
      change_log = Some []\<rparr>"

definition empty_db :: database where
  "empty_db = \<lparr>rows = [], next_id = 1\<rparr>"

definition limits_db :: database where
  "limits_db = \<lparr>rows = [limits_row], next_id = 2\<rparr>"

definition good_update :: update_data where
  "good_update =
     \<lparr>config_value = JObj [(''x'', JNum 2)], description = None, validation_schema = None,
      updated_by = Some ''api_user''\<rparr>"

text \<open>
  The event the specification expects in the history of \<open>limits\<close> after its creation.
\<close>

definition create_event :: "int \<Rightarrow> config_data \<Rightarrow> change_entry" where
  "create_event now configData =
     \<lparr>action = CREATE, old_value = Some JNull, new_value = Some (config_value configData),
      changed_by = created_by configData, changed_at = now\<rparr>"

text \<open>
  A row that no call of the service has made: its \<open>change_log\<close> is NULL, which the
  column allows, its value is a number and it has no schema. It is the kind of row
  \<open>getConfig\<close> can read. The table \<open>rate_db\<close> holds it, and the payloads below update it:
  to the value 7, and to a value that fails the schema sent along.
\<close>

definition rate_row :: config_row where
  "rate_row =
     \<lparr>config_value = JNum 5, description = None, validation_schema = None,
      config_key = ''rate'', config_type = ''system'', config_category = ''performance'',
      created_by = Some ''admin'',
      row_id = 1, version = 1, created_at = 0, updated_at = 0, active = True,
      change_log = None\<rparr>"

definition rate_db :: database where
  "rate_db = \<lparr>rows = [rate_row], next_id = 2\<rparr>"

definition rate_update :: update_data where
  "rate_update =
     \<lparr>config_value = JNum 7, description = None, validation_schema = None,
      updated_by = Some ''api_user''\<rparr>"

definition bad_update :: update_data where
  "bad_update =
     \<lparr>config_value = JObj [(''x'', JNum (- 1))], description = None,
      validation_schema = Some schema_x, updated_by = Some ''api_user''\<rparr>"

definition update_event :: change_entry where
  "update_event =
     \<lparr>action = UPDATE, old_value = Some (JNum 5), new_value = Some (JNum 7),
      changed_by = Some ''api_user'', changed_at = 7\<rparr>"

definition delete_event :: change_entry where
  "delete_event =
     \<lparr>action = DELETE, old_value = Some (JNum 5), new_value = Some JNull,
      changed_by = Some ''api_user'', changed_at = 7\<rparr>"


text \<open>The row \<open>r\<close> is the only row with its key and the only row with its id.\<close>

definition sole_row :: "database \<Rightarrow> config_row \<Rightarrow> bool" where
  "sole_row db r \<longleftrightarrow>
     filter (\<lambda>x. config_key x = config_key r) (rows db) = [r] \<and>
     filter (\<lambda>x. row_id x = row_id r) (rows db) = [r]"

text \<open>The table with the row \<open>r\<close> replaced by \<open>r1\<close>.\<close>

definition replace_row :: "config_row \<Rightarrow> config_row \<Rightarrow> database \<Rightarrow> database" where
  "replace_row r r1 db = db\<lparr>rows := map (\<lambda>x. if x = r then r1 else x) (rows db)\<rparr>"


text \<open>The three mutations of the service, the key each one is about, and their effect.\<close>

datatype mutation =
    Create config_data
  | Update string update_data
  | Delete string "string option"


fun mutate ::
  "convert \<Rightarrow> faults \<Rightarrow> int \<Rightarrow> mutation \<Rightarrow> service \<Rightarrow> (error + config_row) \<times> service" where
  "mutate c f now (Create configData) s = ConfigService_createConfig c f now configData s"
| "mutate c f now (Update configKey updateData) s =
     ConfigService_updateConfig c f now configKey updateData s"
| "mutate c f now (Delete configKey deletedBy) s =
     ConfigService_deleteConfig c f now configKey deletedBy s"


text \<open>
  The cache is coherent when each entry is what \<open>getConfig\<close> of the model returns for
  the active row the table holds for its key.
\<close>

definition cache_coherent :: "convert \<Rightarrow> service \<Rightarrow> bool" where
  "cache_coherent c s \<longleftrightarrow>
     list_all (\<lambda>kr. case select_active (configModel s) (fst kr) of
                       None \<Rightarrow> False
                     | Some stored \<Rightarrow> parse_columns c stored = Inr (snd kr)) (cache s)"

text \<open>
  Services for the examples: one that has \<open>rate\<close> in its cache and one subscriber to it,
  and one that has in its cache, under the key \<open>limits\<close>, an entry the table does not hold.
\<close>

definition cached_service :: service where
  "cached_service =
     \<lparr>configModel = rate_db, cache = [(''rate'', rate_row)],
      cacheTTL = [(''rate'', 3600000)], subscribers = [(''rate'', [0])], notified = []\<rparr>"





text \<open>
  \<open>cached_service\<close> after an update of \<open>rate\<close> whose write has been discarded: the table
  is as it was, the key has left the cache and the subscriber has been told the value 7.
\<close>

definition discarded_service :: service where
  "discarded_service =
     \<lparr>configModel = rate_db, cache = [], cacheTTL = [], subscribers = [(''rate'', [0])],
      notified = [(0, ''rate'', JNum 7)]\<rparr>"

definition default_env :: env where
  "default_env = \<lparr>CACHE_TTL = None, CACHE_MAX_SIZE = None\<rparr>"

section \<open>The examples, evaluated\<close>

lemma array_index_letter [simp]:
  "digit_value ch = None \<Longrightarrow> array_index (ch # k) = None"
  by (simp add: array_index_def)

lemma define_own_new:
  "k \<notin> fst ` set kvs \<Longrightarrow> array_index k = None \<Longrightarrow> define_own k v kvs = kvs @ [(k, v)]"
  by (simp add: define_own_def)

lemma schema_x_compiles:
  "convertToJoiSchema schema_x = Inr (JoiObject [(''x'', JoiNumber (Some (Finite 0)) None)] True)"
  by (simp add: schema_x_def convertToJoiSchema.simps convertPropertyToJoi.simps assign_def
      define_own_new digit_value_def)



lemma truthy_schema_x: "truthy schema_x"
  by (simp add: schema_x_def)



lemma inherited_plain:
  "map_of kvs ''__proto__'' = None \<Longrightarrow> k \<notin> set object_prototype \<Longrightarrow> inherited c kvs k = None"
  by (simp add: inherited_def)

lemma limits_db_select: "select_active limits_db ''limits'' = Some limits_row"
  by (simp add: select_active_def limits_db_def limits_row_def)

lemma limits_db_select_other: "select_active limits_db ''other'' = None"
  by (simp add: select_active_def limits_db_def limits_row_def)

lemma rate_db_select: "select_active rate_db ''rate'' = Some rate_row"
  by (simp add: select_active_def rate_db_def rate_row_def)

lemma rate_row_parses: "parse_columns c rate_row = Inr rate_row"
  by (simp add: parse_columns_def parse_values_def JSON_parse_def rate_row_def)

lemma limits_row_unreadable: "parse_columns c limits_row = Inl SyntaxError"
  by (simp add: parse_columns_def parse_values_def JSON_parse_def limits_row_def schema_x_def)

lemma rate_db_getConfig: "ConfigModel_getConfig c no_faults ''rate'' rate_db = Inr (Some rate_row)"
  by (simp add: ConfigModel_getConfig_def no_faults_def rate_db_select rate_row_parses)

lemma limits_db_getConfig: "ConfigModel_getConfig c no_faults ''limits'' limits_db = Inl SyntaxError"
  by (simp add: ConfigModel_getConfig_def no_faults_def limits_db_select limits_row_unreadable)

lemma stringify_schema_x: "stringify schema_x = schema_x"
  by (simp add: schema_x_def)

lemma create_limits:
  "ConfigModel_createConfig f 0 limits_config empty_db =
     (if f PoolConnect then (Inl (StoreError PoolConnect), empty_db)
      else if f InsertQuery then (Inl (StoreError InsertQuery), empty_db)
      else (Inr limits_row, limits_db))"
  by (simp add: ConfigModel_createConfig_def inserted_row_def insert_violation_def
      limits_config_def empty_db_def addToHistory_def Let_def limits_row_def limits_db_def
      truthy_schema_x stringify_schema_x)

section \<open>Properties of the cache\<close>

lemma js_map_has_iff: "js_map_has m k \<longleftrightarrow> k \<in> set (map fst m)"
  by (induction m) auto

lemma js_map_set_present:
  "k \<in> set (map fst m) \<Longrightarrow> map fst (js_map_set k v m) = map fst m"
proof (induction m)
  case Nil
  then show ?case by simp
next
  case (Cons p m)
  show ?case
  proof (cases "fst p = k")
    case True
    then show ?thesis by (cases p) simp
  next
    case False
    with Cons.prems have "k \<in> set (map fst m)" by auto
    with Cons.IH False show ?thesis by (cases p) simp
  qed
qed

lemma js_map_set_present_length:
  "k \<in> set (map fst m) \<Longrightarrow> length (js_map_set k v m) = length m"
  using js_map_set_present [of k m v] by (metis length_map)

lemma js_map_set_absent: "k \<notin> set (map fst m) \<Longrightarrow> js_map_set k v m = m @ [(k, v)]"
  by (induction m) auto

lemma js_map_set_get: "js_map_get (js_map_set k v m) k = Some v"
  by (induction m) auto

lemma js_map_delete_filter: "js_map_delete k m = filter (\<lambda>kv. fst kv \<noteq> k) m"
  by (induction m) auto

lemma js_map_delete_set: "set (js_map_delete k m) = {kv \<in> set m. fst kv \<noteq> k}"
  by (simp add: js_map_delete_filter)

lemma js_map_delete_subset: "set (js_map_delete k m) \<subseteq> set m"
  by (simp add: js_map_delete_filter)

lemma js_map_delete_keys: "map fst (js_map_delete k m) = filter (\<lambda>k'. k' \<noteq> k) (map fst m)"
  by (induction m) auto

lemma js_map_delete_absent: "k \<notin> set (map fst m) \<Longrightarrow> js_map_delete k m = m"
  by (induction m) auto

lemma js_map_delete_first:
  assumes "distinct (map fst m)" and "m = (k, v) # m'"
  shows "js_map_delete k m = m'"
  using assms by (simp add: js_map_delete_absent)

lemma addToCache_present:
  assumes "cache_inv (parseInt_or (CACHE_MAX_SIZE e) 1000) s" and "k \<in> set (map fst (cache s))"
  shows "addToCache e now k v s =
         s\<lparr>cache := js_map_set k v (cache s),
           cacheTTL := js_map_set k (now + parseInt_or (CACHE_TTL e) 3600 * 1000) (cacheTTL s)\<rparr>"
proof -
  have "length (js_map_set k v (cache s)) = length (cache s)"
    using assms(2) by (rule js_map_set_present_length)
  moreover have "cache s \<noteq> []" using assms(2) by auto
  then have "0 < int (length (cache s))" by simp
  moreover have "int (length (cache s)) \<le> max 0 (parseInt_or (CACHE_MAX_SIZE e) 1000)"
    using assms(1) by (simp add: cache_inv_def)
  ultimately have "\<not> int (length (js_map_set k v (cache s))) > parseInt_or (CACHE_MAX_SIZE e) 1000"
    by linarith
  then show ?thesis by (simp add: addToCache_def Let_def)
qed

lemma addToCache_room:
  assumes "k \<notin> set (map fst (cache s))"
    and "int (length (cache s)) < parseInt_or (CACHE_MAX_SIZE e) 1000"
  shows "cache (addToCache e now k v s) = cache s @ [(k, v)]"
    and "cacheTTL (addToCache e now k v s) =
         js_map_set k (now + parseInt_or (CACHE_TTL e) 3600 * 1000) (cacheTTL s)"
  using assms by (simp_all add: addToCache_def Let_def js_map_set_absent)

lemma addToCache_full:
  assumes "cache_inv (parseInt_or (CACHE_MAX_SIZE e) 1000) s" and "k \<notin> set (map fst (cache s))"
    and "\<not> int (length (cache s)) < parseInt_or (CACHE_MAX_SIZE e) 1000"
  shows "cache (addToCache e now k v s) = tl (cache s @ [(k, v)])"
    and "cacheTTL (addToCache e now k v s) =
         tl (cacheTTL s @ [(k, now + parseInt_or (CACHE_TTL e) 3600 * 1000)])"
proof -
  let ?ttl = "now + parseInt_or (CACHE_TTL e) 3600 * 1000"
  let ?c1 = "cache s @ [(k, v)]" and ?t1 = "cacheTTL s @ [(k, ?ttl)]"
  from assms(1) have d: "distinct (map fst (cache s))"
    and t: "map fst (cacheTTL s) = map fst (cache s)"
    by (simp_all add: cache_inv_def)
  have c1: "js_map_set k v (cache s) = ?c1" using assms(2) by (rule js_map_set_absent)
  have t1: "js_map_set k ?ttl (cacheTTL s) = ?t1" using assms(2) t by (simp add: js_map_set_absent)
  have dc: "distinct (map fst ?c1)" using d assms(2) by simp
  have dt: "distinct (map fst ?t1)" using d t assms(2) by simp
  have kt: "map fst ?t1 = map fst ?c1" using t by simp
  have over: "int (length ?c1) > parseInt_or (CACHE_MAX_SIZE e) 1000" using assms(3) by simp
  obtain k0 v0 m where m: "?c1 = (k0, v0) # m" by (cases ?c1) auto
  with kt obtain w0 n where n: "?t1 = (k0, w0) # n" by (cases ?t1) auto
  have "js_map_delete k0 ?c1 = m" using dc m by (rule js_map_delete_first)
  moreover have "js_map_delete k0 ?t1 = n" using dt n by (rule js_map_delete_first)
  ultimately have "addToCache e now k v s = s\<lparr>cache := m, cacheTTL := n\<rparr>"
    using over m n c1 t1 by (simp add: addToCache_def Let_def)
  then show "cache (addToCache e now k v s) = tl ?c1"
    and "cacheTTL (addToCache e now k v s) = tl ?t1"
    using m n by simp_all
qed

lemma addToCache_inv:
  assumes "cache_inv (parseInt_or (CACHE_MAX_SIZE e) 1000) s"
  shows "cache_inv (parseInt_or (CACHE_MAX_SIZE e) 1000) (addToCache e now k v s)"
proof -
  let ?M = "parseInt_or (CACHE_MAX_SIZE e) 1000"
  from assms have d: "distinct (map fst (cache s))"
    and t: "map fst (cacheTTL s) = map fst (cache s)"
    and b: "int (length (cache s)) \<le> max 0 ?M"
    by (simp_all add: cache_inv_def)
  consider (present) "k \<in> set (map fst (cache s))"
    | (room) "k \<notin> set (map fst (cache s))" "int (length (cache s)) < ?M"
    | (full) "k \<notin> set (map fst (cache s))" "\<not> int (length (cache s)) < ?M"
    by blast
  then show ?thesis
  proof cases
    case present
    then have "k \<in> set (map fst (cacheTTL s))" using t by simp
    then show ?thesis
      using addToCache_present [OF assms present, of now v] d t b present
      by (simp add: cache_inv_def js_map_set_present js_map_set_present_length del: set_map)
  next
    case room
    then show ?thesis
      using addToCache_room [OF room, of now v] d t
      by (simp add: cache_inv_def js_map_set_absent)
  next
    case full
    have "distinct (map fst (tl (cache s @ [(k, v)])))"
      using d full(1) by (simp add: map_tl distinct_tl)
    moreover have "map fst (tl (cacheTTL s @ [(k, now + parseInt_or (CACHE_TTL e) 3600 * 1000)]))
        = map fst (tl (cache s @ [(k, v)]))"
      using t by (simp add: map_tl)
    moreover have "int (length (tl (cache s @ [(k, v)]))) \<le> max 0 ?M"
      using b by simp
    ultimately show ?thesis
      using addToCache_full [OF assms full, of now v] by (simp add: cache_inv_def)
  qed
qed

lemma delete_cache_inv:
  assumes "cache_inv M s"
  shows "cache_inv M (s\<lparr>cache := js_map_delete k (cache s),
                         cacheTTL := js_map_delete k (cacheTTL s)\<rparr>)"
proof -
  from assms have d: "distinct (map fst (cache s))"
    and t: "map fst (cacheTTL s) = map fst (cache s)"
    and b: "int (length (cache s)) \<le> max 0 M"
    by (simp_all add: cache_inv_def)
  have "length (js_map_delete k (cache s)) \<le> length (cache s)"
    by (simp add: js_map_delete_filter)
  with d t b show ?thesis
    by (simp add: cache_inv_def js_map_delete_keys)
qed

lemma empty_cache_inv: "cache_inv M (s\<lparr>cache := [], cacheTTL := []\<rparr>)"
  by (simp add: cache_inv_def)

lemma getFromCache_cache_inv: "cache_inv M s \<Longrightarrow> cache_inv M (snd (getFromCache now k s))"
  by (simp add: getFromCache_def delete_cache_inv split: option.splits)

lemma clearCache_cache_inv: "cache_inv M s \<Longrightarrow> cache_inv M (clearCache key s)"
  by (simp add: clearCache_def delete_cache_inv empty_cache_inv split: option.splits)

lemma cache_step_inv:
  "cache_inv (parseInt_or (CACHE_MAX_SIZE e) 1000) s \<Longrightarrow>
   cache_inv (parseInt_or (CACHE_MAX_SIZE e) 1000) (cache_step e now op s)"
  by (cases op) (simp_all add: addToCache_inv getFromCache_cache_inv clearCache_cache_inv)

lemma cache_run_inv:
  "cache_inv (parseInt_or (CACHE_MAX_SIZE e) 1000) s \<Longrightarrow>
   cache_inv (parseInt_or (CACHE_MAX_SIZE e) 1000) (cache_run e ops s)"
  by (induction e ops s rule: cache_run.induct) (simp_all add: cache_step_inv)

lemma new_service_inv: "cache_inv M (new_service db)"
  by (simp add: cache_inv_def new_service_def)

text \<open>
  C8. After every run of puts, lookups and clears on a new service the cache holds no
  more entries than the configured maximum \<open>M\<close> (none at all when \<open>M\<close> is negative), and
  the two maps list the same keys. A further put of a key that is resident overwrites its value and leaves the
  order of the keys as it is; a put of a new key appends it, and when that exceeds the
  maximum exactly the first entry of the insertion order is dropped.
\<close>

theorem C8_cache_bound_and_insertion_order_eviction:
  "let s = cache_run e ops (new_service db);
       M = parseInt_or (CACHE_MAX_SIZE e) 1000;
       s' = addToCache e now k v s
   in int (length (cache s)) \<le> max 0 M \<and>
      map fst (cacheTTL s) = map fst (cache s) \<and>
      (js_map_has (cache s) k \<longrightarrow>
         map fst (cache s') = map fst (cache s) \<and> js_map_get (cache s') k = Some v) \<and>
      (\<not> js_map_has (cache s) k \<and> int (length (cache s)) < M \<longrightarrow>
         cache s' = cache s @ [(k, v)]) \<and>
      (\<not> js_map_has (cache s) k \<and> \<not> int (length (cache s)) < M \<longrightarrow>
         cache s' = tl (cache s @ [(k, v)]))"
proof -
  let ?M = "parseInt_or (CACHE_MAX_SIZE e) 1000"
  let ?s = "cache_run e ops (new_service db)"
  have inv: "cache_inv ?M ?s" by (rule cache_run_inv [OF new_service_inv])
  have 1: "int (length (cache ?s)) \<le> max 0 ?M" "map fst (cacheTTL ?s) = map fst (cache ?s)"
    using inv by (simp_all add: cache_inv_def)
  have 2: "map fst (cache (addToCache e now k v ?s)) = map fst (cache ?s) \<and>
           js_map_get (cache (addToCache e now k v ?s)) k = Some v"
    if "js_map_has (cache ?s) k"
    using that addToCache_present [OF inv, of k now v]
    by (simp add: js_map_has_iff js_map_set_present js_map_set_get)
  have 3: "cache (addToCache e now k v ?s) = cache ?s @ [(k, v)]"
    if "\<not> js_map_has (cache ?s) k" "int (length (cache ?s)) < ?M"
    using that addToCache_room(1) [of k ?s e now v] by (simp add: js_map_has_iff)
  have 4: "cache (addToCache e now k v ?s) = tl (cache ?s @ [(k, v)])"
    if "\<not> js_map_has (cache ?s) k" "\<not> int (length (cache ?s)) < ?M"
    using that addToCache_full(1) [OF inv, of k now v] by (simp add: js_map_has_iff)
  show ?thesis unfolding Let_def using 1 2 3 4 by blast
qed

theorem C8_cache_bound_witness:
  "\<not> js_map_has (cache (cache_run \<lparr>CACHE_TTL = None, CACHE_MAX_SIZE = Some 2\<rparr>
         [(0, Put ''a'' limits_row), (1, Put ''b'' limits_row)] (new_service limits_db))) ''c'' \<and>
   \<not> int (length (cache (cache_run \<lparr>CACHE_TTL = None, CACHE_MAX_SIZE = Some 2\<rparr>
         [(0, Put ''a'' limits_row), (1, Put ''b'' limits_row)] (new_service limits_db))))
       < parseInt_or (CACHE_MAX_SIZE \<lparr>CACHE_TTL = None, CACHE_MAX_SIZE = Some 2\<rparr>) 1000 \<and>
   map fst (cache (addToCache \<lparr>CACHE_TTL = None, CACHE_MAX_SIZE = Some 2\<rparr> 2 ''c'' limits_row
      (cache_run \<lparr>CACHE_TTL = None, CACHE_MAX_SIZE = Some 2\<rparr>
         [(0, Put ''a'' limits_row), (1, Put ''b'' limits_row)] (new_service limits_db)))) = [''b'', ''c'']"
proof -
  let ?e = "\<lparr>CACHE_TTL = None, CACHE_MAX_SIZE = Some 2\<rparr>"
  let ?s = "cache_run ?e [(0, Put ''a'' limits_row), (1, Put ''b'' limits_row)] (new_service limits_db)"
  have c: "cache ?s = [(''a'', limits_row), (''b'', limits_row)]"
    by (simp add: new_service_def addToCache_def parseInt_or_def Let_def)
  have "cache (addToCache ?e 2 ''c'' limits_row ?s) = tl (cache ?s @ [(''c'', limits_row)])"
    using C8_cache_bound_and_insertion_order_eviction
      [of ?e "[(0, Put ''a'' limits_row), (1, Put ''b'' limits_row)]" limits_db 2 "''c''" limits_row]
    unfolding Let_def c by (simp add: parseInt_or_def)
  then show ?thesis unfolding c by (simp add: parseInt_or_def)
qed

section \<open>Properties of validation\<close>

text \<open>
  C9 (as amended). When \<open>validateConfig\<close> is called with no schema (\<open>undefined\<close> or
  \<open>null\<close>), validation succeeds and the result is \<open>{valid: true}\<close>: it has no \<open>errors\<close>
  and no \<open>value\<close>, so the input value is not part of it.
\<close>

theorem C9_no_schema_succeeds_without_value:
  "validateConfig c v None = \<lparr>valid = True, errors = None, validated = None\<rparr> \<and>
   validateConfig c v (Some JNull) = \<lparr>valid = True, errors = None, validated = None\<rparr>"
  by (simp add: validateConfig_def)

text \<open>
  C9 as stated fails: validating the value \<open>5\<close> with no schema gives a result whose
  \<open>value\<close> is not \<open>5\<close>.
\<close>

theorem C9_input_not_returned:
  "validated (validateConfig no_convert (Some (JNum 5)) None) \<noteq> Some (JNum 5)"
  by (simp add: validateConfig_def)

text \<open>
  C5. The schema \<open>schema_x\<close> lists \<open>x\<close> as required, yet the compiled validator accepts
  \<open>{}\<close>: \<open>required\<close> marks the object itself as required and leaves its keys optional.
  The value \<open>{x: -1}\<close> is rejected with the path \<open>x\<close>.
\<close>

theorem C5_required_list_accepts_missing_property:
  "validateConfig c (Some (JObj [])) (Some schema_x) =
     \<lparr>valid = True, errors = None, validated = Some (JObj [])\<rparr> \<and>
   validateConfig c (Some (JObj [(''x'', JNum (- 1))])) (Some schema_x) =
     \<lparr>valid = False,
      errors = Some [\<lparr>field = ''x'', message = JoiMessage number_min\<rparr>],
      validated = None\<rparr>"
  by (simp add: validateConfig_def schema_x_compiles truthy_schema_x unsafe_def coerce_object_def
      own_properties_def inherited_def object_prototype_def validate_number_def below_def
      join_def seg_text_def)

section \<open>Validation reports the first failing leaf\<close>


























lemma show_nat_digit: "n < 10 \<Longrightarrow> show_nat n = [digit_char n]"
  by simp




section \<open>Properties of the model\<close>

text \<open>
  C3. A create of \<open>limits\<close> in an empty table succeeds, and the row it stores has
  version 1 and an empty change log: the CREATE event is not in it. Reading the history
  of the key throws, and so does an update of the key, so that no version after 1 is
  ever reached.
\<close>

theorem C3_create_stores_no_change_event:
  "ConfigModel_createConfig no_faults 0 limits_config empty_db = (Inr limits_row, limits_db) \<and>
   map version (rows limits_db) = [1] \<and>
   map change_log (rows limits_db) = [Some []] \<and>
   map change_log (rows limits_db) \<noteq> [Some [create_event 0 limits_config]] \<and>
   ConfigModel_getConfigHistory no_faults ''limits'' limits_db = Inl SyntaxError \<and>
   ConfigModel_updateConfig c no_faults 7 ''limits'' good_update limits_db =
     (Inl SyntaxError, limits_db)"
proof -
  have "ConfigModel_getConfigHistory no_faults ''limits'' limits_db = Inl SyntaxError"
    by (simp add: ConfigModel_getConfigHistory_def no_faults_def limits_db_def limits_row_def)
  moreover have "ConfigModel_updateConfig c no_faults 7 ''limits'' good_update limits_db =
     (Inl SyntaxError, limits_db)"
    by (simp add: ConfigModel_updateConfig_def limits_db_getConfig)
       (simp add: no_faults_def rollback_def)
  moreover have "map version (rows limits_db) = [1]" "map change_log (rows limits_db) = [Some []]"
    by (simp_all add: limits_db_def limits_row_def)
  ultimately show ?thesis by (simp add: create_limits no_faults_def)
qed

lemma rate_db_getConfig_faults:
  "\<not> f PoolConnect \<Longrightarrow> \<not> f SelectQuery \<Longrightarrow>
   ConfigModel_getConfig c f ''rate'' rate_db = Inr (Some rate_row)"
  by (simp add: ConfigModel_getConfig_def rate_db_select rate_row_parses)

lemma update_rate:
  "ConfigModel_updateConfig c no_faults 7 ''rate'' rate_update rate_db =
     (Inr (rate_row\<lparr>config_value := JNum 7, version := 2, updated_at := 7\<rparr>),
      \<lparr>rows = [rate_row\<lparr>config_value := JNum 7, version := 2, updated_at := 7,
                         change_log := Some [update_event]\<rparr>], next_id = 2\<rparr>)"
  by (simp add: ConfigModel_updateConfig_def rate_db_getConfig_faults no_faults_def)
     (simp add: rate_db_def rate_row_def rate_update_def update_row_def addToHistory_def Let_def
        parse_values_def JSON_parse_def stringify_property_def update_event_def no_faults_def)

lemma update_rate_history_fails:
  "ConfigModel_updateConfig c (\<lambda>site. site = HistoryUpdate) 7 ''rate'' rate_update rate_db =
     (Inr (rate_row\<lparr>config_value := JNum 7, version := 2, updated_at := 7\<rparr>), rate_db)"
  by (simp add: ConfigModel_updateConfig_def rate_db_getConfig_faults)
     (simp add: rate_db_def rate_row_def rate_update_def update_row_def addToHistory_def Let_def
        parse_values_def JSON_parse_def stringify_property_def)

lemma delete_rate:
  "ConfigModel_deleteConfig c no_faults 7 ''rate'' (Some ''api_user'') rate_db =
     (Inr (rate_row\<lparr>active := False, updated_at := 7\<rparr>),
      \<lparr>rows = [rate_row\<lparr>active := False, updated_at := 7,
                         change_log := Some [delete_event]\<rparr>], next_id = 2\<rparr>)"
  by (simp add: ConfigModel_deleteConfig_def rate_db_getConfig_faults no_faults_def)
     (simp add: rate_db_def rate_row_def delete_row_def addToHistory_def Let_def
        stringify_property_def delete_event_def no_faults_def)

lemma delete_rate_history_fails:
  "ConfigModel_deleteConfig c (\<lambda>site. site = HistorySelect) 7 ''rate'' (Some ''api_user'') rate_db =
     (Inr (rate_row\<lparr>active := False, updated_at := 7\<rparr>), rate_db)"
  by (simp add: ConfigModel_deleteConfig_def rate_db_getConfig_faults)
     (simp add: rate_db_def rate_row_def delete_row_def addToHistory_def Let_def)

text \<open>
  C7. An update of \<open>rate\<close> in which no statement fails returns the entry with the new
  value and version 2, and the table holds it, with the UPDATE event in its change log.
  The same update in which the \<open>UPDATE\<close> of the history append fails returns the same
  entry, and the table is as it was before the call, with the old value and version 1:
  the failed statement has aborted the transaction, and \<open>COMMIT\<close> has discarded the
  row write. Likewise a delete in which no statement fails leaves the row inactive in
  the table, with the DELETE event in its change log, and a delete in which the
  \<open>SELECT\<close> of the history append fails returns the row marked inactive while the row
  is still active in the table.
\<close>

theorem C7_failed_history_statement_discards_the_write:
  "ConfigModel_updateConfig c no_faults 7 ''rate'' rate_update rate_db =
     (Inr (rate_row\<lparr>config_value := JNum 7, version := 2, updated_at := 7\<rparr>),
      \<lparr>rows = [rate_row\<lparr>config_value := JNum 7, version := 2, updated_at := 7,
                         change_log := Some [update_event]\<rparr>], next_id = 2\<rparr>) \<and>
   ConfigModel_updateConfig c (\<lambda>site. site = HistoryUpdate) 7 ''rate'' rate_update rate_db =
     (Inr (rate_row\<lparr>config_value := JNum 7, version := 2, updated_at := 7\<rparr>), rate_db) \<and>
   ConfigModel_deleteConfig c no_faults 7 ''rate'' (Some ''api_user'') rate_db =
     (Inr (rate_row\<lparr>active := False, updated_at := 7\<rparr>),
      \<lparr>rows = [rate_row\<lparr>active := False, updated_at := 7,
                         change_log := Some [delete_event]\<rparr>], next_id = 2\<rparr>) \<and>
   ConfigModel_deleteConfig c (\<lambda>site. site = HistorySelect) 7 ''rate'' (Some ''api_user'') rate_db =
     (Inr (rate_row\<lparr>active := False, updated_at := 7\<rparr>), rate_db)"
  by (simp add: update_rate update_rate_history_fails delete_rate delete_rate_history_fails)


lemma filter_map_untouched:
  "(\<And>x. x \<in> set xs \<Longrightarrow> P x \<Longrightarrow> g x = x) \<Longrightarrow> (\<And>x. P (g x) = P x) \<Longrightarrow>
   filter P (map g xs) = filter P xs"
  by (induction xs) auto


subsection \<open>The only row of a key\<close>

lemma sole_row_mem: "sole_row db r \<Longrightarrow> r \<in> set (rows db)"
proof -
  assume "sole_row db r"
  then have "r \<in> set (filter (\<lambda>x. row_id x = row_id r) (rows db))"
    by (simp add: sole_row_def)
  then show ?thesis by simp
qed









lemma replace_row_select_other:
  assumes "sole_row db r" and "config_key r1 = config_key r" and "k \<noteq> config_key r"
  shows "select_active (replace_row r r1 db) k = select_active db k"
proof -
  have "filter (\<lambda>x. config_key x = k \<and> active x) (map (\<lambda>x. if x = r then r1 else x) (rows db)) =
        filter (\<lambda>x. config_key x = k \<and> active x) (rows db)"
    by (rule filter_map_untouched) (use assms(2,3) in auto)
  then show ?thesis by (simp add: select_active_def replace_row_def)
qed


subsection \<open>What each query does to the only row of its key\<close>







lemma getConfig_not_found:
  assumes "ConfigModel_getConfig c f k db = Inr None"
  shows "select_active db k = None"
  using assms by (auto simp: ConfigModel_getConfig_def split: if_splits option.splits sum.splits)



subsection \<open>What the table returns for the key of a mutation that has committed\<close>



section \<open>Properties of the service operations\<close>

subsection \<open>The service around a mutation\<close>


lemma js_map_get_mem: "js_map_get m k = Some v \<Longrightarrow> (k, v) \<in> set m"
  by (induction m) (auto split: if_splits)







lemma getFromCache_configModel: "configModel (snd (getFromCache now k s)) = configModel s"
  by (simp add: getFromCache_def split: option.splits)

lemma getFromCache_hit: "fst (getFromCache now k s) = Some r \<Longrightarrow> (k, r) \<in> set (cache s)"
  by (auto simp: getFromCache_def js_map_get_mem split: if_splits option.splits)




subsection \<open>The examples of mutations, evaluated\<close>


lemma schema_x_rejects:
  "validateConfig c (Some (JObj [(''x'', JNum (- 1))])) (Some schema_x) =
     \<lparr>valid = False, errors = Some [\<lparr>field = ''x'', message = JoiMessage number_min\<rparr>],
      validated = None\<rparr>"
  by (simp add: validateConfig_def schema_x_compiles truthy_schema_x unsafe_def coerce_object_def
      own_properties_def inherited_def object_prototype_def validate_number_def below_def
      join_def seg_text_def)



lemma discarded_update_on_cached:
  "mutate c (\<lambda>site. site = HistoryUpdate) 7 (Update ''rate'' rate_update) cached_service =
     (Inr (rate_row\<lparr>config_value := JNum 7, version := 2, updated_at := 7\<rparr>), discarded_service)"
proof -
  have g: "ConfigModel_getConfig c (\<lambda>site. site = HistoryUpdate) ''rate''
             (configModel cached_service) = Inr (Some rate_row)"
    by (simp add: cached_service_def rate_db_getConfig_faults)
  have v: "validateConfig c (Some (config_value rate_update))
             (js_or (validation_schema rate_update) (validation_schema rate_row)) =
      \<lparr>valid = True, errors = None, validated = None\<rparr>"
    by (simp add: rate_update_def rate_row_def js_or_def validateConfig_def)
  have m: "ConfigModel_updateConfig c (\<lambda>site. site = HistoryUpdate) 7 ''rate'' rate_update
             (configModel cached_service) =
     (Inr (rate_row\<lparr>config_value := JNum 7, version := 2, updated_at := 7\<rparr>), rate_db)"
    by (simp add: cached_service_def update_rate_history_fails)
  show ?thesis
    by (simp add: ConfigService_updateConfig_def g v m)
       (simp add: cached_service_def discarded_service_def clearCache_def notifySubscribers_def)
qed









text \<open>
  The case the last part of C2 leaves out. An update of \<open>rate\<close> in which the \<open>UPDATE\<close>
  of the history append fails returns the entry with the value 7 and tells the
  subscriber so, and the key has left the cache; the get that follows reads the table,
  which holds the entry as it was before the update.
\<close>

lemma discarded_update_is_read_from_the_table:
  "mutate no_convert (\<lambda>site. site = HistoryUpdate) 7 (Update ''rate'' rate_update)
     cached_service =
     (Inr (rate_row\<lparr>config_value := JNum 7, version := 2, updated_at := 7\<rparr>), discarded_service) \<and>
   \<not> js_map_has (cache discarded_service) ''rate'' \<and>
   fst (ConfigService_getConfig default_env no_convert no_faults 8 ''rate'' discarded_service) =
     Inr (Some rate_row)"
  using discarded_update_on_cached [of no_convert]
  by (simp add: discarded_service_def ConfigService_getConfig_def getFromCache_def
      rate_db_getConfig)

subsection \<open>A value that fails validation\<close>

text \<open>
  C6. A create whose value fails validation returns the validation error and leaves the
  service as it was: the database, the cache and the calls made to subscribers. So does
  an update whose value fails validation against the schema in effect (the one supplied
  with the update, else the stored one).
\<close>

theorem C6_validation_failure_changes_nothing:
  "(\<not> valid (validateConfig c (Some (config_value configData)) (validation_schema configData)) \<longrightarrow>
      ConfigService_createConfig c f now configData s =
        (Inl (ValidationFailed
               (errors (validateConfig c (Some (config_value configData))
                          (validation_schema configData)))), s)) \<and>
   (ConfigModel_getConfig c f configKey (configModel s) = Inr (Some currentConfig) \<and>
    \<not> valid (validateConfig c (Some (config_value updateData))
               (js_or (validation_schema updateData) (validation_schema currentConfig))) \<longrightarrow>
      ConfigService_updateConfig c f now configKey updateData s =
        (Inl (ValidationFailed
               (errors (validateConfig c (Some (config_value updateData))
                          (js_or (validation_schema updateData)
                             (validation_schema currentConfig))))), s))"
  by (simp add: ConfigService_createConfig_def ConfigService_updateConfig_def Let_def)

theorem C6_validation_failure_witness:
  "\<not> valid (validateConfig no_convert
              (Some (config_value (limits_config\<lparr>config_value := JObj [(''x'', JNum (- 1))]\<rparr>)))
              (validation_schema (limits_config\<lparr>config_value := JObj [(''x'', JNum (- 1))]\<rparr>))) \<and>
   ConfigService_createConfig no_convert no_faults 5
       (limits_config\<lparr>config_value := JObj [(''x'', JNum (- 1))]\<rparr>) (new_service limits_db) =
     (Inl (ValidationFailed (Some [\<lparr>field = ''x'', message = JoiMessage number_min\<rparr>])),
      new_service limits_db) \<and>
   ConfigModel_getConfig no_convert no_faults ''rate'' (configModel cached_service) =
     Inr (Some rate_row) \<and>
   \<not> valid (validateConfig no_convert (Some (config_value bad_update))
              (js_or (validation_schema bad_update) (validation_schema rate_row))) \<and>
   ConfigService_updateConfig no_convert no_faults 5 ''rate'' bad_update cached_service =
     (Inl (ValidationFailed (Some [\<lparr>field = ''x'', message = JoiMessage number_min\<rparr>])),
      cached_service)"
proof -
  have g: "ConfigModel_getConfig no_convert no_faults ''rate'' (configModel cached_service) =
      Inr (Some rate_row)"
    by (simp add: cached_service_def rate_db_getConfig)
  have j: "js_or (validation_schema bad_update) (validation_schema rate_row) = Some schema_x"
    by (simp add: bad_update_def js_or_def truthy_schema_x)
  have b: "config_value bad_update = JObj [(''x'', JNum (- 1))]"
    by (simp add: bad_update_def)
  show ?thesis
    using C6_validation_failure_changes_nothing
      [of no_convert "limits_config\<lparr>config_value := JObj [(''x'', JNum (- 1))]\<rparr>" no_faults 5
          "new_service limits_db" "''rate''" rate_row bad_update]
      C6_validation_failure_changes_nothing
      [of no_convert "limits_config\<lparr>config_value := JObj [(''x'', JNum (- 1))]\<rparr>" no_faults 5
          cached_service "''rate''" rate_row bad_update]
    by (simp add: g j b schema_x_rejects limits_config_def)
qed

subsection \<open>Reading a value with a default\<close>

text \<open>
  C10. \<open>getConfigValue\<close> always returns a value and never throws. When the key is not
  served from the cache and the read of the table throws (a failed connection or
  statement, or \<open>JSON.parse\<close> of a column) or the table has no active row for the key,
  the value returned is the default supplied, \<open>null\<close> when none is. When the cache is
  coherent with the table, a key with no active row is never served from the cache, so
  the default is returned for it.
\<close>

theorem C10_getConfigValue_returns_default:
  "(\<exists>v. fst (ConfigService_getConfigValue e c f now configKey defaultValue s) = Inr v) \<and>
   (fst (getFromCache now configKey s) = None \<and>
    (f PoolConnect \<or> f SelectQuery \<or> select_active (configModel s) configKey = None \<or>
     (\<exists>err. ConfigModel_getConfig c f configKey (configModel s) = Inl err)) \<longrightarrow>
      fst (ConfigService_getConfigValue e c f now configKey defaultValue s) =
        Inr (case defaultValue of None \<Rightarrow> JNull | Some d \<Rightarrow> d)) \<and>
   (cache_coherent c s \<and> select_active (configModel s) configKey = None \<longrightarrow>
      fst (ConfigService_getConfigValue e c f now configKey defaultValue s) =
        Inr (case defaultValue of None \<Rightarrow> JNull | Some d \<Rightarrow> d))"
proof -
  have cm: "configModel (snd (getFromCache now configKey s)) = configModel s"
    by (rule getFromCache_configModel)
  have always: "\<exists>v. fst (ConfigService_getConfigValue e c f now configKey defaultValue s) = Inr v"
    by (cases "getFromCache now configKey s")
       (auto simp: ConfigService_getConfigValue_def ConfigService_getConfig_def Let_def
          split: option.splits sum.splits prod.splits)
  have miss: "fst (ConfigService_getConfigValue e c f now configKey defaultValue s) =
        Inr (case defaultValue of None \<Rightarrow> JNull | Some d \<Rightarrow> d)"
    if "fst (getFromCache now configKey s) = None"
      and "f PoolConnect \<or> f SelectQuery \<or> select_active (configModel s) configKey = None \<or>
           (\<exists>err. ConfigModel_getConfig c f configKey (configModel s) = Inl err)"
  proof -
    from that(2) have "ConfigModel_getConfig c f configKey (configModel s) = Inr None \<or>
        (\<exists>err. ConfigModel_getConfig c f configKey (configModel s) = Inl err)"
      by (auto simp: ConfigModel_getConfig_def)
    with that(1) cm show ?thesis
      by (cases "getFromCache now configKey s")
         (auto simp: ConfigService_getConfigValue_def ConfigService_getConfig_def Let_def)
  qed
  have not_served: "fst (getFromCache now configKey s) = None"
    if co: "cache_coherent c s" and none: "select_active (configModel s) configKey = None"
  proof (cases "fst (getFromCache now configKey s)")
    case None
    then show ?thesis .
  next
    case (Some cached)
    from getFromCache_hit [OF Some] co none show ?thesis
      by (auto simp: cache_coherent_def list_all_iff)
  qed
  show ?thesis
  proof (intro conjI impI)
    show "\<exists>v. fst (ConfigService_getConfigValue e c f now configKey defaultValue s) = Inr v"
      by (rule always)
  next
    assume "fst (getFromCache now configKey s) = None \<and>
      (f PoolConnect \<or> f SelectQuery \<or> select_active (configModel s) configKey = None \<or>
       (\<exists>err. ConfigModel_getConfig c f configKey (configModel s) = Inl err))"
    then show "fst (ConfigService_getConfigValue e c f now configKey defaultValue s) =
        Inr (case defaultValue of None \<Rightarrow> JNull | Some d \<Rightarrow> d)"
      using miss by blast
  next
    assume a: "cache_coherent c s \<and> select_active (configModel s) configKey = None"
    then have "fst (getFromCache now configKey s) = None" using not_served by blast
    with a show "fst (ConfigService_getConfigValue e c f now configKey defaultValue s) =
        Inr (case defaultValue of None \<Rightarrow> JNull | Some d \<Rightarrow> d)"
      using miss by blast
  qed
qed

theorem C10_getConfigValue_witness:
  "cache_coherent no_convert (new_service limits_db) \<and>
   fst (getFromCache 5 ''other'' (new_service limits_db)) = None \<and>
   select_active (configModel (new_service limits_db)) ''other'' = None \<and>
   fst (ConfigService_getConfigValue default_env no_convert no_faults 5
          ''other'' (Some (JNum 7)) (new_service limits_db)) = Inr (JNum 7) \<and>
   fst (ConfigService_getConfigValue default_env no_convert
          (\<lambda>site. site = SelectQuery) 5 ''limits'' None (new_service limits_db)) = Inr JNull \<and>
   ConfigModel_getConfig no_convert no_faults ''limits'' (configModel (new_service limits_db)) =
     Inl SyntaxError \<and>
   fst (ConfigService_getConfigValue default_env no_convert no_faults 5
          ''limits'' (Some (JNum 7)) (new_service limits_db)) = Inr (JNum 7)"
proof -
  have m: "fst (getFromCache 5 k (new_service limits_db)) = None" for k
    by (simp add: getFromCache_def new_service_def)
  have n: "select_active (configModel (new_service limits_db)) ''other'' = None"
    by (simp add: new_service_def limits_db_select_other)
  have co: "cache_coherent no_convert (new_service limits_db)"
    by (simp add: cache_coherent_def new_service_def)
  have t: "ConfigModel_getConfig no_convert no_faults ''limits''
             (configModel (new_service limits_db)) = Inl SyntaxError"
    by (simp add: new_service_def limits_db_getConfig)
  show ?thesis
    using C10_getConfigValue_returns_default
      [of default_env no_convert no_faults 5 "''other''" "Some (JNum 7)" "new_service limits_db"]
      C10_getConfigValue_returns_default
      [of default_env no_convert "\<lambda>site. site = SelectQuery" 5 "''limits''" None
          "new_service limits_db"]
      C10_getConfigValue_returns_default
      [of default_env no_convert no_faults 5 "''limits''" "Some (JNum 7)" "new_service limits_db"]
    by (simp add: m n co t)
qed

end
